theory Spec2Isabelle
  imports Main
begin

section \<open>Record model\<close>

text \<open>
  The models of \<^verbatim>\<open>src/app.py\<close>. A Python \<^verbatim>\<open>str\<close> is a \<^typ>\<open>string\<close>, a Python
  \<^verbatim>\<open>int\<close> is an \<^typ>\<open>int\<close>. A naive \<^verbatim>\<open>datetime.datetime\<close> is the number of
  microseconds it denotes, so that \<^verbatim>\<open>>=\<close> on datetimes is \<open>\<ge>\<close> on integers.
\<close>

type_synonym datetime = int

text \<open>\<^verbatim>\<open>class CreateObra(BaseModel)\<close>: the four fields a client supplies.\<close>

record CreateObra =
  titulo :: string
  editora :: string
  foto :: string
  autores :: "string list"

text \<open>
  \<^verbatim>\<open>class Obra(BaseModel)\<close>: the same four fields in the same order, then \<^verbatim>\<open>id\<close>,
  \<^verbatim>\<open>created_at\<close> and \<^verbatim>\<open>updated_at\<close>. The field \<^verbatim>\<open>id\<close> is called \<open>id_obra\<close> here,
  since \<open>id\<close> is the identity function of HOL.
\<close>

record Obra = CreateObra +
  id_obra :: int
  created_at :: datetime
  updated_at :: datetime

text \<open>
  \<^verbatim>\<open>Obra(**obra.dict(), id=i, updated_at=u)\<close> with \<^verbatim>\<open>created_at\<close> either passed or
  produced by the field's \<^verbatim>\<open>default_factory\<close>: the record with the four fields of
  \<open>obra\<close> and the three given values.
\<close>

definition mk_Obra :: "CreateObra \<Rightarrow> int \<Rightarrow> datetime \<Rightarrow> datetime \<Rightarrow> Obra" where
  "mk_Obra obra i c u =
     \<lparr>titulo = titulo obra, editora = editora obra, foto = foto obra, autores = autores obra,
      id_obra = i, created_at = c, updated_at = u\<rparr>"

section \<open>The store: class Obras\<close>

text \<open>
  The object's two attributes, \<^verbatim>\<open>_obras\<close> and \<^verbatim>\<open>_current_id\<close>. Every method takes the
  store and returns its result together with the store it leaves.
\<close>

record Obras =
  obras :: "Obra list"
  current_id :: int

text \<open>\<^verbatim>\<open>__init__\<close>: the empty list, and the counter set to its length.\<close>

definition Obras_init :: Obras where
  "Obras_init = \<lparr>obras = [], current_id = int (length ([] :: Obra list))\<rparr>"

text \<open>
  \<^verbatim>\<open>append\<close>. The clock is read twice, and each reading is an argument of the model, in
  the order Python takes them: \<open>t_arg\<close> is the value of the argument expression
  \<^verbatim>\<open>updated_at=datetime.datetime.utcnow()\<close>, evaluated before \<^verbatim>\<open>Obra(...)\<close> is
  called; \<open>t_default\<close> is what the \<^verbatim>\<open>default_factory\<close> of \<^verbatim>\<open>created_at\<close> returns when
  the constructor then fills the field that was not passed.
\<close>

definition Obras_append :: "Obras \<Rightarrow> CreateObra \<Rightarrow> datetime \<Rightarrow> datetime \<Rightarrow> Obra \<times> Obras" where
  "Obras_append s obra t_arg t_default =
     (let cid = current_id s + 1;
          result = mk_Obra obra cid t_default t_arg
      in (result, s\<lparr>obras := obras s @ [result], current_id := cid\<rparr>))"

text \<open>
  \<^verbatim>\<open>next((i for i, item in enumerate(self._obras) if item.id == obra_id), None)\<close>: the
  index of the first item with the id, or \<open>None\<close>.
\<close>

fun matching_obra_index :: "Obra list \<Rightarrow> int \<Rightarrow> nat option" where
  "matching_obra_index [] obra_id = None"
| "matching_obra_index (item # items) obra_id =
     (if id_obra item = obra_id then Some 0
      else map_option Suc (matching_obra_index items obra_id))"

text \<open>
  \<^verbatim>\<open>update\<close>: \<open>now\<close> is the reading of \<^verbatim>\<open>datetime.datetime.utcnow()\<close>, taken only
  when an index was found. Python's \<open>None\<close> result is \<open>None\<close>.
\<close>

definition Obras_update :: "Obras \<Rightarrow> int \<Rightarrow> CreateObra \<Rightarrow> datetime \<Rightarrow> Obra option \<times> Obras" where
  "Obras_update s obra_id updated_obra now =
     (case matching_obra_index (obras s) obra_id of
        Some i \<Rightarrow>
          (let new = mk_Obra updated_obra (id_obra (obras s ! i)) (created_at (obras s ! i)) now
           in (Some new, s\<lparr>obras := (obras s)[i := new]\<rparr>))
      | None \<Rightarrow> (None, s))"

text \<open>\<^verbatim>\<open>delete\<close>: \<^verbatim>\<open>self._obras.pop(i)\<close> removes the item at the index and returns it.\<close>

definition Obras_delete :: "Obras \<Rightarrow> int \<Rightarrow> Obra option \<times> Obras" where
  "Obras_delete s obra_id =
     (case matching_obra_index (obras s) obra_id of
        Some i \<Rightarrow> (Some (obras s ! i), s\<lparr>obras := take i (obras s) @ drop (Suc i) (obras s)\<rparr>)
      | None \<Rightarrow> (None, s))"

definition get_all :: "Obras \<Rightarrow> Obra list" where
  "get_all s = obras s"

text \<open>
  \<^verbatim>\<open>get_all_as_dict_filtered\<close>. The query parameter \<^verbatim>\<open>data_inicial\<close> is absent, or a
  datetime without an offset (naive), or one with an offset (aware), whose instant is
  kept. A datetime is never falsy, so \<^verbatim>\<open>not filter_date\<close> holds for \<open>None\<close> only.
  \<^verbatim>\<open>created_at\<close> is naive (\<^verbatim>\<open>utcnow()\<close>), and Python raises \<^verbatim>\<open>TypeError\<close> when a naive
  datetime is compared with an aware one: that happens at the first record, if there is
  one.
\<close>

datatype filter_date = Naive datetime | Aware datetime

text \<open>
  The exceptions that the handlers can meet: Python's own, \<^verbatim>\<open>pydantic.ValidationError\<close>
  and \<^verbatim>\<open>csv.Error\<close>. \<open>Unmodelled\<close> is not an exception: it marks an input on which the
  models of the libraries below say nothing (syntax outside the modelled fragment, or
  behaviour that differs between versions of a library).
\<close>

datatype py_error =
  KeyError | TypeError | ValueError | SyntaxError | ValidationError | OSError | CsvError | Unmodelled

fun get_all_as_dict_filtered :: "Obras \<Rightarrow> filter_date option \<Rightarrow> py_error + Obra list" where
  "get_all_as_dict_filtered s None = Inr (obras s)"
| "get_all_as_dict_filtered s (Some (Naive d)) = Inr (filter (\<lambda>obra. created_at obra \<ge> d) (obras s))"
| "get_all_as_dict_filtered s (Some (Aware d)) = (if obras s = [] then Inr [] else Inl TypeError)"

section \<open>Histories of the store\<close>

text \<open>
  One call of a method of the store, with the clock readings the call takes. The states
  the process can be in are those a list of calls leads to from \<open>Obras_init\<close>, since
  the module creates the store once (\<^verbatim>\<open>obras = Obras()\<close>) and every handler goes through
  the three methods.
\<close>

datatype op = Append CreateObra datetime datetime | Update int CreateObra datetime | Delete int

fun step :: "Obras \<Rightarrow> op \<Rightarrow> Obras" where
  "step s (Append obra t_arg t_default) = snd (Obras_append s obra t_arg t_default)"
| "step s (Update obra_id obra now) = snd (Obras_update s obra_id obra now)"
| "step s (Delete obra_id) = snd (Obras_delete s obra_id)"

definition run :: "op list \<Rightarrow> Obras" where
  "run ops = foldl step Obras_init ops"

text \<open>The ids of the records that the \<open>Append\<close> calls of a history return, in call order.\<close>

fun appended_ids :: "Obras \<Rightarrow> op list \<Rightarrow> int list" where
  "appended_ids s [] = []"
| "appended_ids s (Append obra t_arg t_default # ops) =
     id_obra (fst (Obras_append s obra t_arg t_default))
       # appended_ids (step s (Append obra t_arg t_default)) ops"
| "appended_ids s (Update obra_id obra now # ops) = appended_ids (step s (Update obra_id obra now)) ops"
| "appended_ids s (Delete obra_id # ops) = appended_ids (step s (Delete obra_id)) ops"

fun is_Append :: "op \<Rightarrow> bool" where
  "is_Append (Append obra t_arg t_default) = True"
| "is_Append (Update obra_id obra now) = False"
| "is_Append (Delete obra_id) = False"

definition count_appends :: "op list \<Rightarrow> nat" where
  "count_appends ops = length (filter is_Append ops)"

section \<open>The HTTP facade over the store\<close>

text \<open>
  What a handler gives the framework: a value to serialise (status 200), an
  \<^verbatim>\<open>HTTPException(status_code, detail)\<close> it raised, or another exception it let escape,
  for which the framework answers 500.
\<close>

datatype 'a response = Response 'a | HTTPException nat string | Uncaught py_error

text \<open>
  The detail of the 404 answers, "Obra n?o encontrada!" with U+00E3 (a with tilde) in
  the place of the question mark. A character of a Python string is its code point.
\<close>

definition obra_nao_encontrada :: string where
  "obra_nao_encontrada = ''Obra n'' @ [CHR 0xE3] @ ''o encontrada!''"

definition put_obras :: "Obras \<Rightarrow> int \<Rightarrow> CreateObra \<Rightarrow> datetime \<Rightarrow> Obra response \<times> Obras" where
  "put_obras s update_id updated_obra now =
     (case Obras_update s update_id updated_obra now of
        (None, s') \<Rightarrow> (HTTPException 404 obra_nao_encontrada, s')
      | (Some response, s') \<Rightarrow> (Response response, s'))"

text \<open>
  The handler of \<^verbatim>\<open>DELETE /obras/{delete_id}\<close>. The source gives it the name
  \<^verbatim>\<open>post_upload_obras\<close> a second time; the route is registered by the decorator, so
  both handlers stay in place.
\<close>

definition delete_obras :: "Obras \<Rightarrow> int \<Rightarrow> Obra response \<times> Obras" where
  "delete_obras s delete_id =
     (case Obras_delete s delete_id of
        (None, s') \<Rightarrow> (HTTPException 404 obra_nao_encontrada, s')
      | (Some response, s') \<Rightarrow> (Response response, s'))"

definition post_obras :: "Obras \<Rightarrow> CreateObra \<Rightarrow> datetime \<Rightarrow> datetime \<Rightarrow> Obra response \<times> Obras" where
  "post_obras s obra t_arg t_default =
     (case Obras_append s obra t_arg t_default of (result, s') \<Rightarrow> (Response result, s'))"

definition get_obras :: "Obras \<Rightarrow> Obra list response" where
  "get_obras s = Response (get_all s)"

section \<open>The specification's rule for the next id\<close>

text \<open>
  The specification's words, not the code: "current maximum + 1, starting at 1 in an
  empty store".
\<close>

definition spec_next_id :: "Obra list \<Rightarrow> int" where
  "spec_next_id rs = (if rs = [] then 1 else Max (set (map id_obra rs)) + 1)"

fun is_Delete :: "op \<Rightarrow> bool" where
  "is_Delete (Append obra t_arg t_default) = False"
| "is_Delete (Update obra_id obra now) = False"
| "is_Delete (Delete obra_id) = True"

text \<open>The request body of the specification's first scenario, and a second one.\<close>

definition obra_A :: CreateObra where
  "obra_A = \<lparr>titulo = ''A'', editora = ''E'', foto = ''u'', autores = [''X'']\<rparr>"

definition obra_B :: CreateObra where
  "obra_B = \<lparr>titulo = ''B'', editora = ''F'', foto = ''v'', autores = [''Y'', ''Z'']\<rparr>"


section \<open>The invariant of the store\<close>

text \<open>The ids of the stored records, in list order.\<close>

definition ids :: "Obras \<Rightarrow> int list" where
  "ids s = map id_obra (obras s)"

text \<open>
  The counter is not negative, and the stored ids are distinct, positive and at most the
  counter.
\<close>

definition store_inv :: "Obras \<Rightarrow> bool" where
  "store_inv s \<longleftrightarrow>
     0 \<le> current_id s \<and> distinct (ids s) \<and> list_all (\<lambda>i. 0 < i \<and> i \<le> current_id s) (ids s)"

text \<open>
  A store with two records, made by two appends: \<open>obra_A\<close> gets id 1 (clock readings
  10 and 11), \<open>obra_B\<close> gets id 2 (clock readings 20 and 21).
\<close>

definition store_AB :: Obras where
  "store_AB = snd (Obras_append (snd (Obras_append Obras_init obra_A 10 11)) obra_B 20 21)"

section \<open>The standard library's csv.reader\<close>

text \<open>
  \<^verbatim>\<open>csv.reader(file, skipinitialspace=True)\<close> with the default dialect otherwise:
  delimiter comma, quote character the double quote, doubled quotes inside quoted
  fields, no escape character, not strict. The model follows the reader's state
  machine (\<^verbatim>\<open>parse_process_char\<close> in CPython's \<^verbatim>\<open>_csv.c\<close>); the states that only an
  escape character reaches are left out.
\<close>

datatype parser_state =
  START_RECORD | START_FIELD | IN_FIELD | IN_QUOTED_FIELD | QUOTE_IN_QUOTED_FIELD | EAT_CRNL

record ReaderObj =
  state :: parser_state
  fields_list :: "string list"
  field :: string

text \<open>What the reader is given: a character of the line, or the end of the line.\<close>

datatype input = Ch char | EOL

definition delimiter :: char where
  "delimiter = CHR '',''"

definition quotechar :: char where
  "quotechar = CHR 0x22"

definition LF :: char where
  "LF = CHR 0x0A"

definition CR :: char where
  "CR = CHR 0x0D"

text \<open>\<^verbatim>\<open>csv.field_size_limit()\<close>, 128 * 1024 unless the program changes it.\<close>

definition field_limit :: nat where
  "field_limit = 131072"

definition parse_reset :: ReaderObj where
  "parse_reset = \<lparr>state = START_RECORD, fields_list = [], field = []\<rparr>"

definition parse_add_char :: "ReaderObj \<Rightarrow> char \<Rightarrow> py_error + ReaderObj" where
  "parse_add_char self c =
     (if length (field self) \<ge> field_limit then Inl CsvError
      else Inr (self\<lparr>field := field self @ [c]\<rparr>))"

definition parse_save_field :: "ReaderObj \<Rightarrow> ReaderObj" where
  "parse_save_field self = self\<lparr>fields_list := fields_list self @ [field self], field := []\<rparr>"

text \<open>The one step of \<^verbatim>\<open>parse_add_char\<close> followed by a change of state.\<close>

definition add_char_then :: "ReaderObj \<Rightarrow> char \<Rightarrow> parser_state \<Rightarrow> py_error + ReaderObj" where
  "add_char_then self c st =
     (case parse_add_char self c of Inl e \<Rightarrow> Inl e | Inr self' \<Rightarrow> Inr (self'\<lparr>state := st\<rparr>))"

text \<open>
  The case \<^verbatim>\<open>START_FIELD\<close>, which \<^verbatim>\<open>START_RECORD\<close> falls through to. A space at the
  start of a field is dropped, since the dialect has \<^verbatim>\<open>skipinitialspace\<close>.
\<close>

fun start_field :: "ReaderObj \<Rightarrow> input \<Rightarrow> py_error + ReaderObj" where
  "start_field self EOL = Inr ((parse_save_field self)\<lparr>state := START_RECORD\<rparr>)"
| "start_field self (Ch c) =
     (if c = LF \<or> c = CR then Inr ((parse_save_field self)\<lparr>state := EAT_CRNL\<rparr>)
      else if c = quotechar then Inr (self\<lparr>state := IN_QUOTED_FIELD\<rparr>)
      else if c = CHR '' '' then Inr self
      else if c = delimiter then Inr (parse_save_field self)
      else add_char_then self c IN_FIELD)"

fun in_field :: "ReaderObj \<Rightarrow> input \<Rightarrow> py_error + ReaderObj" where
  "in_field self EOL = Inr ((parse_save_field self)\<lparr>state := START_RECORD\<rparr>)"
| "in_field self (Ch c) =
     (if c = LF \<or> c = CR then Inr ((parse_save_field self)\<lparr>state := EAT_CRNL\<rparr>)
      else if c = delimiter then Inr ((parse_save_field self)\<lparr>state := START_FIELD\<rparr>)
      else parse_add_char self c)"

fun in_quoted_field :: "ReaderObj \<Rightarrow> input \<Rightarrow> py_error + ReaderObj" where
  "in_quoted_field self EOL = Inr self"
| "in_quoted_field self (Ch c) =
     (if c = quotechar then Inr (self\<lparr>state := QUOTE_IN_QUOTED_FIELD\<rparr>)
      else parse_add_char self c)"

fun quote_in_quoted_field :: "ReaderObj \<Rightarrow> input \<Rightarrow> py_error + ReaderObj" where
  "quote_in_quoted_field self EOL = Inr ((parse_save_field self)\<lparr>state := START_RECORD\<rparr>)"
| "quote_in_quoted_field self (Ch c) =
     (if c = quotechar then add_char_then self c IN_QUOTED_FIELD
      else if c = delimiter then Inr ((parse_save_field self)\<lparr>state := START_FIELD\<rparr>)
      else if c = LF \<or> c = CR then Inr ((parse_save_field self)\<lparr>state := EAT_CRNL\<rparr>)
      else add_char_then self c IN_FIELD)"

fun eat_crnl :: "ReaderObj \<Rightarrow> input \<Rightarrow> py_error + ReaderObj" where
  "eat_crnl self EOL = Inr (self\<lparr>state := START_RECORD\<rparr>)"
| "eat_crnl self (Ch c) = (if c = LF \<or> c = CR then Inr self else Inl CsvError)"

fun start_record :: "ReaderObj \<Rightarrow> input \<Rightarrow> py_error + ReaderObj" where
  "start_record self EOL = Inr self"
| "start_record self (Ch c) =
     (if c = LF \<or> c = CR then Inr (self\<lparr>state := EAT_CRNL\<rparr>)
      else start_field (self\<lparr>state := START_FIELD\<rparr>) (Ch c))"

definition parse_process_char :: "ReaderObj \<Rightarrow> input \<Rightarrow> py_error + ReaderObj" where
  "parse_process_char self c =
     (case state self of
        START_RECORD \<Rightarrow> start_record self c
      | START_FIELD \<Rightarrow> start_field self c
      | IN_FIELD \<Rightarrow> in_field self c
      | IN_QUOTED_FIELD \<Rightarrow> in_quoted_field self c
      | QUOTE_IN_QUOTED_FIELD \<Rightarrow> quote_in_quoted_field self c
      | EAT_CRNL \<Rightarrow> eat_crnl self c)"

text \<open>
  One line of the input: its characters, then the end of the line. Whether a NUL
  character is an error (\<^verbatim>\<open>line contains NUL\<close>) depends on the version of Python, so
  the model says nothing about a line that holds one.
\<close>

fun process_line :: "ReaderObj \<Rightarrow> string \<Rightarrow> py_error + ReaderObj" where
  "process_line self [] = parse_process_char self EOL"
| "process_line self (c # cs) =
     (if c = CHR 0x00 then Inl Unmodelled
      else (case parse_process_char self (Ch c) of
              Inl e \<Rightarrow> Inl e
            | Inr self' \<Rightarrow> process_line self' cs))"

text \<open>
  The lines that iterating over \<^verbatim>\<open>StringIO(text)\<close> yields: each ends after a line feed,
  which it keeps; the last one may have none.
\<close>

fun readlines :: "string \<Rightarrow> string list" where
  "readlines [] = []"
| "readlines (c # cs) =
     (if c = LF then [c] # readlines cs
      else (case readlines cs of [] \<Rightarrow> [[c]] | l # ls \<Rightarrow> (c # l) # ls))"

text \<open>
  The rows that the reader yields, in order, and the error that ends the iteration if
  one is raised. \<^verbatim>\<open>Reader_iternext\<close> starts every row from \<open>parse_reset\<close> and takes
  lines until the state is \<^verbatim>\<open>START_RECORD\<close> again; when the lines run out inside a
  row, it yields the row if a field was begun or a quoted field is open.
\<close>

fun reader_rows :: "ReaderObj \<Rightarrow> string list \<Rightarrow> string list list \<times> py_error option" where
  "reader_rows self [] =
     (if field self \<noteq> [] \<or> state self = IN_QUOTED_FIELD
      then ([fields_list (parse_save_field self)], None) else ([], None))"
| "reader_rows self (line # rest) =
     (case process_line self line of
        Inl e \<Rightarrow> ([], Some e)
      | Inr self' \<Rightarrow>
          if state self' = START_RECORD
          then (case reader_rows parse_reset rest of (rows, err) \<Rightarrow> (fields_list self' # rows, err))
          else reader_rows self' rest)"

definition csv_reader :: "string \<Rightarrow> string list list \<times> py_error option" where
  "csv_reader file = reader_rows parse_reset (readlines file)"

section \<open>ast.literal_eval, on a fragment of Python's literals\<close>

text \<open>
  The values that the modelled literals denote. A dictionary is kept as its pairs and a
  set as its elements, both in the order written.
\<close>

datatype pyval =
  PyNone | PyBool bool | PyInt int | PyStr string | PyBytes string
  | PyList "pyval list" | PyTuple "pyval list" | PySet "pyval list"
  | PyDict "(pyval \<times> pyval) list"

text \<open>
  The fragment: the brackets, comma and colon; string and bytes literals in single or
  double quotes with the escapes \<^verbatim>\<open>\\\<close>, \<^verbatim>\<open>\'\<close>, \<^verbatim>\<open>\"\<close>, \<^verbatim>\<open>\n\<close>, \<^verbatim>\<open>\t\<close>, \<^verbatim>\<open>\r\<close> and
  \<^verbatim>\<open>\xhh\<close>; unsigned decimal integers; names; spaces between tokens; displays of
  lists, tuples (with or without parentheses), sets and dictionaries, nested or not. There
  the model answers what \<^verbatim>\<open>literal_eval\<close> answers: the value, or the exception
  (\<^verbatim>\<open>SyntaxError\<close> for a text that is no expression, \<^verbatim>\<open>ValueError\<close> for one that
  holds a name, \<^verbatim>\<open>TypeError\<close> for a set element or a key without a hash). On anything
  else (triple quotes, prefixes other than \<^verbatim>\<open>b\<close>, other escapes, floats, signs and
  operators, calls, subscripts, keywords, ...) it answers \<open>Unmodelled\<close>. The tokens
  have the names of Python's tokenizer.
\<close>

datatype token =
  LSQB | RSQB | LPAR | RPAR | LBRACE | RBRACE | COMMA | COLON
  | STRING string | BYTES string | NUMBER nat | NAME string

text \<open>
  Where the tokenizer is: between tokens; after the opening quote of a literal; after
  two quotes (an empty literal, or the start of a triple-quoted one); inside a literal,
  after a backslash, after \<^verbatim>\<open>\x\<close>, after \<^verbatim>\<open>\x\<close> and one digit; inside a number; inside a
  name. The flag of a literal says whether it has the prefix \<^verbatim>\<open>b\<close>, the character is
  its quote, the string is what it holds so far.
\<close>

datatype lex_state =
  Between
  | Opened bool char
  | Empty2 bool char
  | Body bool char string
  | Backslash bool char string
  | Hex1 bool char string
  | Hex2 bool char string nat
  | Digits string
  | Letters string

definition squote :: char where
  "squote = CHR 0x27"

definition backslash :: char where
  "backslash = CHR 0x5C"

text \<open>Python's \<^verbatim>\<open>ord\<close>: the code point of a character.\<close>

definition py_ord :: "char \<Rightarrow> nat" where
  "py_ord c = of_char c"

text \<open>The digits \<^verbatim>\<open>0\<close> to \<^verbatim>\<open>9\<close> are the code points 48 to 57.\<close>

definition is_digit :: "char \<Rightarrow> bool" where
  "is_digit c \<longleftrightarrow> 48 \<le> py_ord c \<and> py_ord c \<le> 57"

text \<open>
  The letters \<^verbatim>\<open>A\<close> to \<^verbatim>\<open>Z\<close> are the code points 65 to 90, \<^verbatim>\<open>a\<close> to \<^verbatim>\<open>z\<close> are 97 to
  122, and the underscore counts as a letter in a name. So do the letters with accents of
  Latin-1, the code points 192 to 255 without the two signs 215 and 247.
\<close>

definition is_letter :: "char \<Rightarrow> bool" where
  "is_letter c \<longleftrightarrow>
     (65 \<le> py_ord c \<and> py_ord c \<le> 90) \<or> (97 \<le> py_ord c \<and> py_ord c \<le> 122) \<or> c = CHR ''_''
     \<or> (192 \<le> py_ord c \<and> py_ord c \<noteq> 215 \<and> py_ord c \<noteq> 247)"

text \<open>The value of a hexadecimal digit, in either case.\<close>

definition hex_value :: "char \<Rightarrow> nat option" where
  "hex_value c =
     (if is_digit c then Some (py_ord c - 48)
      else if 97 \<le> py_ord c \<and> py_ord c \<le> 102 then Some (py_ord c - 87)
      else if 65 \<le> py_ord c \<and> py_ord c \<le> 70 then Some (py_ord c - 55)
      else None)"

text \<open>
  Letters that may be the prefix of a string literal: one or two of \<^verbatim>\<open>b\<close>, \<^verbatim>\<open>r\<close>,
  \<^verbatim>\<open>u\<close>, \<^verbatim>\<open>f\<close>, \<^verbatim>\<open>t\<close>, in either case. Which of them are prefixes depends on the
  version of Python; other letters before a quote are a name.
\<close>

definition potential_prefix :: "string \<Rightarrow> bool" where
  "potential_prefix ls \<longleftrightarrow> length ls \<le> 2 \<and> set ls \<subseteq> set ''bBrRuUfFtT''"

definition literal_token :: "bool \<Rightarrow> string \<Rightarrow> token" where
  "literal_token b s = (if b then BYTES s else STRING s)"

fun digits_value :: "nat \<Rightarrow> string \<Rightarrow> nat" where
  "digits_value n [] = n"
| "digits_value n (c # cs) = digits_value (10 * n + (py_ord c - 48)) cs"

text \<open>
  A decimal integer: zeros, or digits that do not start with \<^verbatim>\<open>0\<close>; other digits
  after a leading zero are a \<^verbatim>\<open>SyntaxError\<close>. From 4301 digits on, what Python does
  depends on its version.
\<close>

definition number_token :: "string \<Rightarrow> py_error + token" where
  "number_token ds =
     (if 4300 < length ds then Inl Unmodelled
      else if list_all (\<lambda>c. c = CHR ''0'') ds then Inr (NUMBER 0)
      else if hd ds = CHR ''0'' then Inl SyntaxError
      else Inr (NUMBER (digits_value 0 ds)))"

definition between :: "char \<Rightarrow> py_error + token list \<times> lex_state" where
  "between c =
     (if c = CHR '' '' then Inr ([], Between)
      else if c = CHR ''['' then Inr ([LSQB], Between)
      else if c = CHR '']'' then Inr ([RSQB], Between)
      else if c = CHR ''('' then Inr ([LPAR], Between)
      else if c = CHR '')'' then Inr ([RPAR], Between)
      else if c = CHR ''{'' then Inr ([LBRACE], Between)
      else if c = CHR ''}'' then Inr ([RBRACE], Between)
      else if c = CHR '','' then Inr ([COMMA], Between)
      else if c = CHR '':'' then Inr ([COLON], Between)
      else if c = squote \<or> c = quotechar then Inr ([], Opened False c)
      else if is_digit c then Inr ([], Digits [c])
      else if is_letter c then Inr ([], Letters [c])
      else Inl Unmodelled)"

text \<open>A token has ended at a character that is not part of it: the character starts anew.\<close>

definition emit_then :: "token \<Rightarrow> char \<Rightarrow> py_error + token list \<times> lex_state" where
  "emit_then t c = (case between c of Inl e \<Rightarrow> Inl e | Inr (ts, st) \<Rightarrow> Inr (t # ts, st))"

definition in_body :: "bool \<Rightarrow> char \<Rightarrow> string \<Rightarrow> char \<Rightarrow> py_error + token list \<times> lex_state" where
  "in_body b q acc c =
     (if c = q then Inr ([literal_token b acc], Between)
      else if c = backslash then Inr ([], Backslash b q acc)
      else if c = LF \<or> c = CR \<or> c = CHR 0x00 then Inl Unmodelled
      else if b \<and> 128 \<le> py_ord c then Inl Unmodelled
      else Inr ([], Body b q (acc @ [c])))"

definition after_backslash :: "bool \<Rightarrow> char \<Rightarrow> string \<Rightarrow> char \<Rightarrow> py_error + token list \<times> lex_state" where
  "after_backslash b q acc c =
     (if c = backslash \<or> c = squote \<or> c = quotechar then Inr ([], Body b q (acc @ [c]))
      else if c = CHR ''n'' then Inr ([], Body b q (acc @ [LF]))
      else if c = CHR ''t'' then Inr ([], Body b q (acc @ [CHR 0x09]))
      else if c = CHR ''r'' then Inr ([], Body b q (acc @ [CR]))
      else if c = CHR ''x'' then Inr ([], Hex1 b q acc)
      else Inl Unmodelled)"

fun lex_char :: "lex_state \<Rightarrow> char \<Rightarrow> py_error + token list \<times> lex_state" where
  "lex_char Between c = between c"
| "lex_char (Opened b q) c = (if c = q then Inr ([], Empty2 b q) else in_body b q [] c)"
| "lex_char (Empty2 b q) c = (if c = q then Inl Unmodelled else emit_then (literal_token b []) c)"
| "lex_char (Body b q acc) c = in_body b q acc c"
| "lex_char (Backslash b q acc) c = after_backslash b q acc c"
| "lex_char (Hex1 b q acc) c =
     (case hex_value c of None \<Rightarrow> Inl Unmodelled | Some h \<Rightarrow> Inr ([], Hex2 b q acc h))"
| "lex_char (Hex2 b q acc h) c =
     (case hex_value c of
        None \<Rightarrow> Inl Unmodelled
      | Some l \<Rightarrow> Inr ([], Body b q (acc @ [char_of (16 * h + l)])))"
| "lex_char (Digits ds) c =
     (if is_digit c then Inr ([], Digits (ds @ [c]))
      else if is_letter c \<or> c = CHR ''.'' \<or> c = squote \<or> c = quotechar then Inl Unmodelled
      else (case number_token ds of Inl e \<Rightarrow> Inl e | Inr t \<Rightarrow> emit_then t c))"
| "lex_char (Letters ls) c =
     (if is_letter c \<or> is_digit c then Inr ([], Letters (ls @ [c]))
      else if c = squote \<or> c = quotechar
      then (if ls = ''b'' then Inr ([], Opened True c)
            else if potential_prefix ls then Inl Unmodelled
            else Inr ([NAME ls], Opened False c))
      else emit_then (NAME ls) c)"

text \<open>
  The end of the input. Inside a literal it is Python's \<^verbatim>\<open>SyntaxError\<close> for a string
  that is not closed.
\<close>

fun lex_end :: "lex_state \<Rightarrow> py_error + token list" where
  "lex_end Between = Inr []"
| "lex_end (Opened b q) = Inl SyntaxError"
| "lex_end (Empty2 b q) = Inr [literal_token b []]"
| "lex_end (Body b q acc) = Inl SyntaxError"
| "lex_end (Backslash b q acc) = Inl SyntaxError"
| "lex_end (Hex1 b q acc) = Inl SyntaxError"
| "lex_end (Hex2 b q acc h) = Inl SyntaxError"
| "lex_end (Digits ds) = (case number_token ds of Inl e \<Rightarrow> Inl e | Inr t \<Rightarrow> Inr [t])"
| "lex_end (Letters ls) = Inr [NAME ls]"

fun lex :: "lex_state \<Rightarrow> string \<Rightarrow> py_error + token list" where
  "lex st [] = lex_end st"
| "lex st (c # cs) =
     (case lex_char st c of
        Inl e \<Rightarrow> Inl e
      | Inr (ts, st') \<Rightarrow> (case lex st' cs of Inl e \<Rightarrow> Inl e | Inr ts' \<Rightarrow> Inr (ts @ ts')))"

text \<open>
  The expressions that the tokens can form, as the nodes of Python's \<^verbatim>\<open>ast\<close>: a
  constant, a name, and the displays of a list, a tuple, a set and a dictionary (which
  holds its keys and its values, as \<^verbatim>\<open>ast.Dict\<close> does).
\<close>

datatype node =
  Constant pyval
  | Name string
  | List_display "node list"
  | Tuple_display "node list"
  | Set_display "node list"
  | Dict_display "node list" "node list"

text \<open>
  Python's keywords, apart from the three constants. An expression with one of them
  (\<^verbatim>\<open>not x\<close>, \<^verbatim>\<open>lambda: 0\<close>, a comprehension, ...) is outside the fragment.
\<close>

definition py_keywords :: "string list" where
  "py_keywords =
     [''and'', ''as'', ''assert'', ''async'', ''await'', ''break'', ''class'', ''continue'',
      ''def'', ''del'', ''elif'', ''else'', ''except'', ''finally'', ''for'', ''from'',
      ''global'', ''if'', ''import'', ''in'', ''is'', ''lambda'', ''nonlocal'', ''not'', ''or'',
      ''pass'', ''raise'', ''return'', ''try'', ''while'', ''with'', ''yield'']"

definition name_node :: "string \<Rightarrow> py_error + node" where
  "name_node x =
     (if x = ''None'' then Inr (Constant PyNone)
      else if x = ''True'' then Inr (Constant (PyBool True))
      else if x = ''False'' then Inr (Constant (PyBool False))
      else if x \<in> set py_keywords then Inl Unmodelled
      else Inr (Name x))"

text \<open>
  The parser reads the tokens from left to right and keeps the displays that are open, the
  innermost first. For each it holds the bracket, the elements read so far (the values, in
  a dictionary), the keys of a dictionary, the key that waits for its value after a colon,
  and whether a comma was seen. Below them all is the expression as a whole, \<open>Top\<close>,
  which is a tuple when it has a comma outside all brackets.
\<close>

datatype bracket = Square | Round | Curly | Top

record frame =
  bracket_kind :: bracket
  elts :: "node list"
  dict_keys :: "node list"
  pending_key :: "node option"
  has_comma :: bool

text \<open>
  Where the parser is: at the start or after an opening bracket; after a comma; after a
  colon; after the tokens of an atom; after a closing bracket.
\<close>

datatype position = After_open | After_comma | After_colon | After_atom node | After_close node

definition value_at :: "position \<Rightarrow> node option" where
  "value_at pos =
     (case pos of After_atom v \<Rightarrow> Some v | After_close v \<Rightarrow> Some v | _ \<Rightarrow> None)"

text \<open>
  Python's own limits on nesting depend on the version (the parser of 3.8 gives up below a
  hundred levels), so the model follows displays up to this depth only.
\<close>

definition max_depth :: nat where
  "max_depth = 20"

text \<open>
  An opening bracket starts a display where a value may start. After a value, \<^verbatim>\<open>(\<close> and
  \<^verbatim>\<open>[\<close> would start a call or a subscript, which the fragment leaves out; \<^verbatim>\<open>{\<close> cannot
  follow a value.
\<close>

definition new_frame :: "bracket \<Rightarrow> frame" where
  "new_frame b =
     \<lparr>bracket_kind = b, elts = [], dict_keys = [], pending_key = None, has_comma = False\<rparr>"

definition open_bracket :: "bracket \<Rightarrow> frame list \<Rightarrow> position \<Rightarrow> py_error + frame list \<times> position" where
  "open_bracket b stack pos =
     (case value_at pos of
        Some v \<Rightarrow> if b = Curly then Inl SyntaxError else Inl Unmodelled
      | None \<Rightarrow>
          if length stack \<le> max_depth then Inr (new_frame b # stack, After_open)
          else Inl Unmodelled)"

text \<open>
  A value that is complete joins the display it is in: as the value of the key that waits,
  or as an element. An element without a key cannot follow \<^verbatim>\<open>key: value\<close> pairs.
\<close>

definition attach :: "node \<Rightarrow> frame \<Rightarrow> py_error + frame" where
  "attach v f =
     (case pending_key f of
        Some k \<Rightarrow>
          Inr (f\<lparr>elts := elts f @ [v], dict_keys := dict_keys f @ [k], pending_key := None\<rparr>)
      | None \<Rightarrow> if dict_keys f \<noteq> [] then Inl SyntaxError else Inr (f\<lparr>elts := elts f @ [v]\<rparr>))"

text \<open>
  The node of a display that is closed. Parentheses around one value without a comma are
  that value, and so is the expression as a whole; \<^verbatim>\<open>{}\<close> is the empty dictionary.
\<close>

definition tuple_or_value :: "frame \<Rightarrow> node" where
  "tuple_or_value f =
     (case elts f of
        [v] \<Rightarrow> if has_comma f then Tuple_display [v] else v
      | vs \<Rightarrow> Tuple_display vs)"

definition display :: "frame \<Rightarrow> node" where
  "display f =
     (case bracket_kind f of
        Square \<Rightarrow> List_display (elts f)
      | Round \<Rightarrow> tuple_or_value f
      | Top \<Rightarrow> tuple_or_value f
      | Curly \<Rightarrow>
          if elts f = [] \<or> dict_keys f \<noteq> [] then Dict_display (dict_keys f) (elts f)
          else Set_display (elts f))"

definition close_with :: "node \<Rightarrow> frame \<Rightarrow> frame list \<Rightarrow> py_error + frame list \<times> position" where
  "close_with v f rest =
     (case attach v f of Inl e \<Rightarrow> Inl e | Inr f' \<Rightarrow> Inr (rest, After_close (display f')))"

text \<open>
  A closing bracket must match the innermost open display, and cannot follow a colon.
\<close>

definition close_bracket :: "bracket \<Rightarrow> frame list \<Rightarrow> position \<Rightarrow> py_error + frame list \<times> position" where
  "close_bracket b stack pos =
     (case stack of
        [] \<Rightarrow> Inl SyntaxError
      | f # rest \<Rightarrow>
          if bracket_kind f \<noteq> b then Inl SyntaxError
          else (case pos of
                  After_open \<Rightarrow> Inr (rest, After_close (display f))
                | After_comma \<Rightarrow> Inr (rest, After_close (display f))
                | After_colon \<Rightarrow> Inl SyntaxError
                | After_atom v \<Rightarrow> close_with v f rest
                | After_close v \<Rightarrow> close_with v f rest))"

text \<open>A comma follows a value, which joins the innermost display.\<close>

definition parse_comma :: "frame list \<Rightarrow> position \<Rightarrow> py_error + frame list \<times> position" where
  "parse_comma stack pos =
     (case value_at pos of
        None \<Rightarrow> Inl SyntaxError
      | Some v \<Rightarrow>
          (case stack of
             [] \<Rightarrow> Inl SyntaxError
           | f # rest \<Rightarrow>
               (case attach v f of
                  Inl e \<Rightarrow> Inl e
                | Inr f' \<Rightarrow> Inr (f'\<lparr>has_comma := True\<rparr> # rest, After_comma))))"

text \<open>
  A colon follows a key, in braces that hold nothing or \<^verbatim>\<open>key: value\<close> pairs only.
\<close>

definition parse_colon :: "frame list \<Rightarrow> position \<Rightarrow> py_error + frame list \<times> position" where
  "parse_colon stack pos =
     (case value_at pos of
        None \<Rightarrow> Inl SyntaxError
      | Some v \<Rightarrow>
          (case stack of
             [] \<Rightarrow> Inl SyntaxError
           | f # rest \<Rightarrow>
               if bracket_kind f = Curly \<and> pending_key f = None
                  \<and> length (dict_keys f) = length (elts f)
               then Inr (f\<lparr>pending_key := Some v\<rparr> # rest, After_colon)
               else Inl SyntaxError))"

text \<open>
  String literals that stand side by side are one string, and so are bytes literals; a
  string beside a bytes literal is a \<^verbatim>\<open>SyntaxError\<close>, as are two other atoms side by
  side.
\<close>

definition juxtaposed :: "node \<Rightarrow> node \<Rightarrow> node option" where
  "juxtaposed u v =
     (case u of
        Constant a \<Rightarrow>
          (case v of
             Constant b \<Rightarrow>
               (case a of
                  PyStr s \<Rightarrow> (case b of PyStr t \<Rightarrow> Some (Constant (PyStr (s @ t))) | _ \<Rightarrow> None)
                | PyBytes s \<Rightarrow>
                    (case b of PyBytes t \<Rightarrow> Some (Constant (PyBytes (s @ t))) | _ \<Rightarrow> None)
                | _ \<Rightarrow> None)
           | _ \<Rightarrow> None)
      | _ \<Rightarrow> None)"

definition parse_atom :: "node \<Rightarrow> frame list \<Rightarrow> position \<Rightarrow> py_error + frame list \<times> position" where
  "parse_atom v stack pos =
     (case pos of
        After_atom u \<Rightarrow>
          (case juxtaposed u v of None \<Rightarrow> Inl SyntaxError | Some w \<Rightarrow> Inr (stack, After_atom w))
      | After_close u \<Rightarrow> Inl SyntaxError
      | _ \<Rightarrow> Inr (stack, After_atom v))"

fun parse_token :: "frame list \<times> position \<Rightarrow> token \<Rightarrow> py_error + frame list \<times> position" where
  "parse_token (stack, pos) LSQB = open_bracket Square stack pos"
| "parse_token (stack, pos) LPAR = open_bracket Round stack pos"
| "parse_token (stack, pos) LBRACE = open_bracket Curly stack pos"
| "parse_token (stack, pos) RSQB = close_bracket Square stack pos"
| "parse_token (stack, pos) RPAR = close_bracket Round stack pos"
| "parse_token (stack, pos) RBRACE = close_bracket Curly stack pos"
| "parse_token (stack, pos) COMMA = parse_comma stack pos"
| "parse_token (stack, pos) COLON = parse_colon stack pos"
| "parse_token (stack, pos) (STRING s) = parse_atom (Constant (PyStr s)) stack pos"
| "parse_token (stack, pos) (BYTES s) = parse_atom (Constant (PyBytes s)) stack pos"
| "parse_token (stack, pos) (NUMBER n) = parse_atom (Constant (PyInt (int n))) stack pos"
| "parse_token (stack, pos) (NAME x) =
     (case name_node x of Inl e \<Rightarrow> Inl e | Inr v \<Rightarrow> parse_atom v stack pos)"

text \<open>
  The end of the tokens closes the expression as a whole, as a bracket closes a display:
  a bracket that is still open is a \<^verbatim>\<open>SyntaxError\<close>, and so is no token at all.
\<close>

definition parse_end :: "frame list \<times> position \<Rightarrow> py_error + node" where
  "parse_end st =
     (if snd st = After_open then Inl SyntaxError
      else (case close_bracket Top (fst st) (snd st) of
              Inl e \<Rightarrow> Inl e
            | Inr (rest, pos) \<Rightarrow>
                (case value_at pos of None \<Rightarrow> Inl SyntaxError | Some v \<Rightarrow> Inr v)))"

fun parse_tokens :: "frame list \<times> position \<Rightarrow> token list \<Rightarrow> py_error + node" where
  "parse_tokens st [] = parse_end st"
| "parse_tokens st (t # ts) =
     (case parse_token st t of Inl e \<Rightarrow> Inl e | Inr st' \<Rightarrow> parse_tokens st' ts)"

definition parse :: "token list \<Rightarrow> py_error + node" where
  "parse ts = parse_tokens ([new_frame Top], After_open) ts"

text \<open>
  The values of the elements of a display, in order: the first exception is raised.
\<close>

fun collect :: "(py_error + 'a) list \<Rightarrow> py_error + 'a list" where
  "collect [] = Inr []"
| "collect (r # rs) =
     (case r of
        Inl e \<Rightarrow> Inl e
      | Inr v \<Rightarrow> (case collect rs of Inl e \<Rightarrow> Inl e | Inr vs \<Rightarrow> Inr (v # vs)))"

text \<open>
  The values that have a hash: all but lists, sets and dictionaries, and tuples that
  hold one of these. The others cannot be elements of a set or keys of a dictionary:
  \<^verbatim>\<open>TypeError\<close>.
\<close>

fun hashable :: "pyval \<Rightarrow> bool" where
  "hashable PyNone = True"
| "hashable (PyBool b) = True"
| "hashable (PyInt n) = True"
| "hashable (PyStr s) = True"
| "hashable (PyBytes s) = True"
| "hashable (PyList vs) = False"
| "hashable (PyTuple vs) = list_all hashable vs"
| "hashable (PySet vs) = False"
| "hashable (PyDict kvs) = False"

definition hashed :: "py_error + pyval \<Rightarrow> py_error + pyval" where
  "hashed r =
     (case r of Inl e \<Rightarrow> Inl e | Inr v \<Rightarrow> if hashable v then Inr v else Inl TypeError)"

text \<open>
  \<^verbatim>\<open>dict(zip(map(_convert, keys), map(_convert, values)))\<close>: for each pair in turn the
  key is converted, then the value, then the key is hashed.
\<close>

fun dict_items ::
  "(py_error + pyval) list \<Rightarrow> (py_error + pyval) list \<Rightarrow> py_error + (pyval \<times> pyval) list" where
  "dict_items (k # ks) (v # vs) =
     (case k of
        Inl e \<Rightarrow> Inl e
      | Inr k' \<Rightarrow>
          (case v of
             Inl e \<Rightarrow> Inl e
           | Inr v' \<Rightarrow>
               if hashable k'
               then (case dict_items ks vs of Inl e \<Rightarrow> Inl e | Inr kvs \<Rightarrow> Inr ((k', v') # kvs))
               else Inl TypeError))"
| "dict_items [] vs = Inr []"
| "dict_items ks [] = Inr []"

text \<open>
  \<^verbatim>\<open>_convert\<close> of \<^verbatim>\<open>literal_eval\<close>: a name that is not a constant is a
  \<^verbatim>\<open>ValueError\<close> (malformed node).
\<close>

fun convert :: "node \<Rightarrow> py_error + pyval" where
  "convert (Constant v) = Inr v"
| "convert (Name x) = Inl ValueError"
| "convert (List_display es) =
     (case collect (map convert es) of Inl e \<Rightarrow> Inl e | Inr vs \<Rightarrow> Inr (PyList vs))"
| "convert (Tuple_display es) =
     (case collect (map convert es) of Inl e \<Rightarrow> Inl e | Inr vs \<Rightarrow> Inr (PyTuple vs))"
| "convert (Set_display es) =
     (case collect (map (\<lambda>e. hashed (convert e)) es) of
        Inl e \<Rightarrow> Inl e
      | Inr vs \<Rightarrow> Inr (PySet vs))"
| "convert (Dict_display ks vs) =
     (case dict_items (map convert ks) (map convert vs) of
        Inl e \<Rightarrow> Inl e
      | Inr kvs \<Rightarrow> Inr (PyDict kvs))"

text \<open>
  \<^verbatim>\<open>literal_eval(node_or_string)\<close>, for the cell of a row: a string, or \<open>None\<close> when
  the row is shorter than the header. \<open>None\<close> is no string and no node, which is a
  \<^verbatim>\<open>ValueError\<close>. Python strips leading spaces and tabs from 3.10 on and rejects them
  before, so the model says nothing about a string that starts with one. The string is
  parsed as a whole (\<^verbatim>\<open>SyntaxError\<close>) before any of it is converted (\<^verbatim>\<open>ValueError\<close>,
  \<^verbatim>\<open>TypeError\<close>).
\<close>

fun literal_eval :: "string option \<Rightarrow> py_error + pyval" where
  "literal_eval None = Inl ValueError"
| "literal_eval (Some s) =
     (if s \<noteq> [] \<and> (hd s = CHR '' '' \<or> hd s = CHR 0x09) then Inl Unmodelled
      else (case lex Between s of
              Inl e \<Rightarrow> Inl e
            | Inr ts \<Rightarrow> (case parse ts of Inl e \<Rightarrow> Inl e | Inr n \<Rightarrow> convert n)))"

section \<open>pydantic: the validation of CreateObra\<close>

text \<open>
  An element of \<^verbatim>\<open>autores: List[str]\<close>. A string is taken as it is. A bytes value is
  decoded; the model follows that for ASCII bytes only. \<open>None\<close> and the containers
  are not strings. A number (and a boolean, which is one) becomes its text in pydantic 1
  and is an error in pydantic 2, so the model says nothing there.
\<close>

fun str_validator :: "pyval \<Rightarrow> py_error + string" where
  "str_validator (PyStr s) = Inr s"
| "str_validator (PyBytes b) = (if list_all (\<lambda>c. py_ord c < 128) b then Inr b else Inl Unmodelled)"
| "str_validator (PyInt n) = Inl Unmodelled"
| "str_validator (PyBool b) = Inl Unmodelled"
| "str_validator PyNone = Inl ValidationError"
| "str_validator (PyList vs) = Inl ValidationError"
| "str_validator (PyTuple vs) = Inl ValidationError"
| "str_validator (PySet vs) = Inl ValidationError"
| "str_validator (PyDict kvs) = Inl ValidationError"

text \<open>
  All the elements are validated: one that is not valid makes the whole invalid,
  whatever the others are.
\<close>

definition all_valid :: "(py_error + string) list \<Rightarrow> py_error + string list" where
  "all_valid rs =
     (if Inl ValidationError \<in> set rs then Inl ValidationError
      else if list_ex isl rs then Inl Unmodelled
      else Inr (map projr rs))"

text \<open>
  A set is turned into the list of its elements, each of them once. With two or more
  elements their order depends on the hashes of the strings, which change from one run of
  Python to the next, so the model gives the list of a set of at most one element only.
\<close>

definition set_valid :: "pyval list \<Rightarrow> py_error + string list" where
  "set_valid vs =
     (case all_valid (map str_validator (remdups vs)) of
        Inl e \<Rightarrow> Inl e
      | Inr xs \<Rightarrow> if length xs \<le> 1 then Inr xs else Inl Unmodelled)"

text \<open>
  The field \<^verbatim>\<open>autores\<close>: a list, or a tuple or a set, which are turned into a list. A
  string, a bytes value, a number, \<open>None\<close> and a dictionary are not lists.
\<close>

fun list_validator :: "pyval \<Rightarrow> py_error + string list" where
  "list_validator (PyList vs) = all_valid (map str_validator vs)"
| "list_validator (PyTuple vs) = all_valid (map str_validator vs)"
| "list_validator (PySet vs) = set_valid vs"
| "list_validator (PyStr s) = Inl ValidationError"
| "list_validator (PyBytes b) = Inl ValidationError"
| "list_validator (PyInt n) = Inl ValidationError"
| "list_validator (PyBool b) = Inl ValidationError"
| "list_validator PyNone = Inl ValidationError"
| "list_validator (PyDict kvs) = Inl ValidationError"

text \<open>
  \<^verbatim>\<open>CreateObra(titulo=t, editora=e, foto=f, autores=a)\<close>, where each of the first three
  is a string or \<open>None\<close> (what a row of the reader holds): \<open>None\<close> is not a string.
\<close>

definition CreateObra_validate ::
  "string option \<Rightarrow> string option \<Rightarrow> string option \<Rightarrow> pyval \<Rightarrow> py_error + CreateObra" where
  "CreateObra_validate t e f a =
     (case (t, e, f) of
        (Some t', Some e', Some f') \<Rightarrow>
          (case list_validator a of
             Inl err \<Rightarrow> Inl err
           | Inr a' \<Rightarrow> Inr \<lparr>titulo = t', editora = e', foto = f', autores = a'\<rparr>)
      | _ \<Rightarrow> Inl ValidationError)"

section \<open>csv.DictReader and the handler of POST /upload-obras\<close>

text \<open>
  The dict that \<^verbatim>\<open>DictReader\<close> makes of a row: \<^verbatim>\<open>dict(zip(fieldnames, row))\<close>, then
  \<open>None\<close> (\<^verbatim>\<open>restval\<close>) for every field name beyond the row. It is kept as the list of
  its assignments, of which the last one for a key counts. The cells beyond the header
  go under the key \<open>None\<close>, which no lookup by a name reads.
\<close>

definition row_dict :: "string list \<Rightarrow> string list \<Rightarrow> (string \<times> string option) list" where
  "row_dict fieldnames row =
     zip fieldnames (map Some row @ replicate (length fieldnames - length row) None)"

text \<open>\<^verbatim>\<open>row[key]\<close>: the value, or \<^verbatim>\<open>KeyError\<close>.\<close>

definition getitem :: "(string \<times> string option) list \<Rightarrow> string \<Rightarrow> py_error + string option" where
  "getitem d key = (case map_of (rev d) key of None \<Rightarrow> Inl KeyError | Some v \<Rightarrow> Inr v)"

text \<open>
  The argument of \<^verbatim>\<open>obras.append\<close> for one row. Python evaluates the four keyword
  arguments in the order written, then calls \<^verbatim>\<open>CreateObra\<close>.
\<close>

definition row_to_CreateObra :: "(string \<times> string option) list \<Rightarrow> py_error + CreateObra" where
  "row_to_CreateObra row =
     (case getitem row ''titulo'' of Inl e \<Rightarrow> Inl e | Inr t \<Rightarrow>
      (case getitem row ''editora'' of Inl e \<Rightarrow> Inl e | Inr ed \<Rightarrow>
       (case getitem row ''foto'' of Inl e \<Rightarrow> Inl e | Inr f \<Rightarrow>
        (case getitem row ''autores'' of Inl e \<Rightarrow> Inl e | Inr a \<Rightarrow>
         (case literal_eval a of Inl e \<Rightarrow> Inl e | Inr v \<Rightarrow> CreateObra_validate t ed f v)))))"

text \<open>
  The \<^verbatim>\<open>for\<close> loop over the rows after the header. \<^verbatim>\<open>DictReader\<close> skips the rows that
  are \<^verbatim>\<open>[]\<close> (blank lines). \<open>clock k\<close> holds the two clock readings of the append for
  the \<open>k\<close>-th row that reaches it, \<open>err\<close> the error with which the reader ends, if
  any. An exception ends the loop and leaves what was appended.
\<close>

fun upload_rows ::
  "string list \<Rightarrow> (nat \<Rightarrow> datetime \<times> datetime) \<Rightarrow> nat \<Rightarrow> string list list \<Rightarrow> py_error option
     \<Rightarrow> Obras \<Rightarrow> Obra list \<Rightarrow> (py_error + Obra list) \<times> Obras" where
  "upload_rows fieldnames clock k [] err s results =
     (case err of None \<Rightarrow> (Inr results, s) | Some e \<Rightarrow> (Inl e, s))"
| "upload_rows fieldnames clock k (row # rows) err s results =
     (if row = [] then upload_rows fieldnames clock k rows err s results
      else (case row_to_CreateObra (row_dict fieldnames row) of
              Inl e \<Rightarrow> (Inl e, s)
            | Inr obra \<Rightarrow>
                (case Obras_append s obra (fst (clock k)) (snd (clock k)) of
                   (result, s') \<Rightarrow>
                     upload_rows fieldnames clock (Suc k) rows err s' (results @ [result]))))"

definition csv_mal_formatado :: string where
  "csv_mal_formatado = ''CSV mal formatado!''"

text \<open>
  \<^verbatim>\<open>post_upload_obras\<close>, on the text that the upload decodes to. The first row of the
  reader is the header. Only \<^verbatim>\<open>KeyError\<close> is caught.
\<close>

definition post_upload_obras ::
  "Obras \<Rightarrow> string \<Rightarrow> (nat \<Rightarrow> datetime \<times> datetime) \<Rightarrow> Obra list response \<times> Obras" where
  "post_upload_obras s file clock =
     (case csv_reader file of
        ([], err) \<Rightarrow> (case err of None \<Rightarrow> (Response [], s) | Some e \<Rightarrow> (Uncaught e, s))
      | (fieldnames # rows, err) \<Rightarrow>
          (case upload_rows fieldnames clock 0 rows err s [] of
             (Inl e, s') \<Rightarrow>
               if e = KeyError then (HTTPException 400 csv_mal_formatado, s') else (Uncaught e, s')
           | (Inr results, s') \<Rightarrow> (Response results, s')))"

text \<open>
  The upload of the specification's fourth scenario: the header, then the rows
  \<^verbatim>\<open>A,E,u,"[""X""]"\<close> and \<^verbatim>\<open>B,F,v,"[""Y"",""Z""]"\<close>.
\<close>

definition upload_AB :: string where
  "upload_AB =
     ''titulo,editora,foto,autores'' @ [LF]
     @ ''A,E,u,'' @ [quotechar] @ ''['' @ [quotechar, quotechar] @ ''X'' @ [quotechar, quotechar]
       @ '']'' @ [quotechar] @ [LF]
     @ ''B,F,v,'' @ [quotechar] @ ''['' @ [quotechar, quotechar] @ ''Y'' @ [quotechar, quotechar]
       @ '','' @ [quotechar, quotechar] @ ''Z'' @ [quotechar, quotechar] @ '']'' @ [quotechar] @ [LF]"

text \<open>A clock for the examples: the append for row \<open>k\<close> reads \<open>10 k\<close>, then \<open>10 k + 1\<close>.\<close>

definition clock10 :: "nat \<Rightarrow> datetime \<times> datetime" where
  "clock10 k = (10 * int k, 10 * int k + 1)"

text \<open>The columns that the handler reads from every row.\<close>

definition required_columns :: "string list" where
  "required_columns = [''titulo'', ''editora'', ''foto'', ''autores'']"

text \<open>
  The store after appending the requests \<open>cs\<close> in order, the \<open>j\<close>-th of them with
  the clock readings \<open>clock (k + j)\<close>.
\<close>

fun append_all :: "Obras \<Rightarrow> (nat \<Rightarrow> datetime \<times> datetime) \<Rightarrow> nat \<Rightarrow> CreateObra list \<Rightarrow> Obras" where
  "append_all s clock k [] = s"
| "append_all s clock k (c # cs) =
     append_all (snd (Obras_append s c (fst (clock k)) (snd (clock k)))) clock (Suc k) cs"

text \<open>The records that these appends return.\<close>

fun appended :: "Obras \<Rightarrow> (nat \<Rightarrow> datetime \<times> datetime) \<Rightarrow> nat \<Rightarrow> CreateObra list \<Rightarrow> Obra list" where
  "appended s clock k [] = []"
| "appended s clock k (c # cs) =
     fst (Obras_append s c (fst (clock k)) (snd (clock k)))
       # appended (snd (Obras_append s c (fst (clock k)) (snd (clock k)))) clock (Suc k) cs"

text \<open>An upload that is only the header of the specification's fifth scenario.\<close>

definition upload_header_only :: string where
  "upload_header_only = ''titulo,editora,foto'' @ [LF]"

text \<open>The same header, followed by one row.\<close>

definition upload_no_autores :: string where
  "upload_no_autores = ''titulo,editora,foto'' @ [LF] @ ''A,E,u'' @ [LF]"

text \<open>
  The same header, followed by a row with a carriage return inside a field that is not in
  quotes.
\<close>

definition upload_bare_CR :: string where
  "upload_bare_CR = ''titulo,editora,foto'' @ [LF] @ ''A'' @ [CR] @ ''B,E,u'' @ [LF]"

text \<open>
  An upload with the full header whose second row has the \<^verbatim>\<open>autores\<close> cell
  \<^verbatim>\<open>[Ana]\<close>, a name without quotes, between two rows that are well formed.
\<close>

definition upload_bad_second :: string where
  "upload_bad_second =
     ''titulo,editora,foto,autores'' @ [LF] @ ''A,E,u,[]'' @ [LF] @ ''B,F,v,[Ana]'' @ [LF]
     @ ''C,G,w,[]'' @ [LF]"

text \<open>
  Cells that are no literals: a bracket that is not closed after a comma, and a
  dictionary whose key is a list.
\<close>

definition cell_open_bracket :: string where
  "cell_open_bracket = ''[1,''"

definition cell_list_key :: string where
  "cell_list_key = ''{[1]: 2}''"

text \<open>
  Uploads with a well formed row and then a row with one of these cells; the first is in
  quotes in the CSV text, since it holds a comma.
\<close>

definition upload_open_bracket :: string where
  "upload_open_bracket =
     ''titulo,editora,foto,autores'' @ [LF] @ ''A,E,u,[]'' @ [LF]
     @ ''B,F,v,'' @ [quotechar] @ cell_open_bracket @ [quotechar] @ [LF]"

definition upload_list_key :: string where
  "upload_list_key =
     ''titulo,editora,foto,autores'' @ [LF] @ ''A,E,u,[]'' @ [LF]
     @ ''B,F,v,'' @ cell_list_key @ [LF]"

section \<open>str and repr of the values that are exported\<close>

definition hexdigit :: "nat \<Rightarrow> char" where
  "hexdigit n = (if n < 10 then char_of (48 + n) else char_of (87 + n))"

text \<open>
  \<^verbatim>\<open>str.isprintable\<close> on the code points below 256: the ASCII characters from the space
  to the tilde, and the Latin-1 characters from U+00A1 on except the soft hyphen U+00AD.
\<close>

definition isprintable :: "char \<Rightarrow> bool" where
  "isprintable c \<longleftrightarrow> (32 \<le> py_ord c \<and> py_ord c \<le> 126) \<or> (161 \<le> py_ord c \<and> py_ord c \<noteq> 173)"

text \<open>One character of \<^verbatim>\<open>repr\<close> of a string whose quote is \<open>q\<close>.\<close>

definition repr_char :: "char \<Rightarrow> char \<Rightarrow> string" where
  "repr_char q c =
     (if c = q \<or> c = backslash then [backslash, c]
      else if c = CHR 0x09 then [backslash, CHR ''t'']
      else if c = LF then [backslash, CHR ''n'']
      else if c = CR then [backslash, CHR ''r'']
      else if isprintable c then [c]
      else [backslash, CHR ''x'', hexdigit (py_ord c div 16), hexdigit (py_ord c mod 16)])"

text \<open>
  \<^verbatim>\<open>repr\<close> of a string: in single quotes, unless the string has a single quote and no
  double quote.
\<close>

definition repr_quote :: "string \<Rightarrow> char" where
  "repr_quote s = (if squote \<in> set s \<and> quotechar \<notin> set s then quotechar else squote)"

definition repr_str :: "string \<Rightarrow> string" where
  "repr_str s = repr_quote s # concat (map (repr_char (repr_quote s)) s) @ [repr_quote s]"

text \<open>\<^verbatim>\<open>', '.join(xs)\<close>.\<close>

fun join_comma_space :: "string list \<Rightarrow> string" where
  "join_comma_space [] = []"
| "join_comma_space [x] = x"
| "join_comma_space (x # y # ys) = x @ '', '' @ join_comma_space (y # ys)"

text \<open>\<^verbatim>\<open>str\<close> of a list of strings.\<close>

definition str_list :: "string list \<Rightarrow> string" where
  "str_list xs = ''['' @ join_comma_space (map repr_str xs) @ '']''"

function digits_of :: "nat \<Rightarrow> string" where
  "digits_of n =
     (if n < 10 then [char_of (48 + n)] else digits_of (n div 10) @ [char_of (48 + n mod 10)])"
  by pat_completeness auto
termination
  by (relation "measure (\<lambda>n. n)") auto

declare digits_of.simps [simp del]

text \<open>\<^verbatim>\<open>str\<close> of an integer.\<close>

definition str_int :: "int \<Rightarrow> string" where
  "str_int i = (if i < 0 then CHR ''-'' # digits_of (nat (- i)) else digits_of (nat i))"

section \<open>The standard library's csv.writer and csv.DictWriter\<close>

text \<open>
  The default dialect: fields are joined by commas, a row ends with CR LF, and a field is
  put in double quotes, with its double quotes doubled, only if it holds the delimiter,
  the quote character or a character of the line terminator (\<^verbatim>\<open>QUOTE_MINIMAL\<close>).
\<close>

definition needs_quotes :: "string \<Rightarrow> bool" where
  "needs_quotes s \<longleftrightarrow> list_ex (\<lambda>c. c = delimiter \<or> c = quotechar \<or> c = CR \<or> c = LF) s"

definition double_quotes :: "string \<Rightarrow> string" where
  "double_quotes s = concat (map (\<lambda>c. if c = quotechar then [quotechar, quotechar] else [c]) s)"

definition join_append :: "string \<Rightarrow> string" where
  "join_append s = (if needs_quotes s then quotechar # double_quotes s @ [quotechar] else s)"

fun join_fields :: "string list \<Rightarrow> string" where
  "join_fields [] = []"
| "join_fields [x] = x"
| "join_fields (x # y # ys) = x @ [delimiter] @ join_fields (y # ys)"

text \<open>A row of one empty field is written as two quotes.\<close>

definition writerow :: "string list \<Rightarrow> string" where
  "writerow row =
     (if row = [[]] then [quotechar, quotechar] else join_fields (map join_append row)) @ [CR, LF]"

text \<open>
  The keys of \<^verbatim>\<open>obra.dict()\<close>, in the order of the fields of \<^verbatim>\<open>Obra\<close>: the header that
  \<^verbatim>\<open>writeheader\<close> writes.
\<close>

definition Obra_keys :: "string list" where
  "Obra_keys = [''titulo'', ''editora'', ''foto'', ''autores'', ''id'', ''created_at'', ''updated_at'']"

text \<open>
  The cells of a record: the writer takes a string as it is and \<^verbatim>\<open>str\<close> of any other
  value. \<open>str_datetime\<close> stands for \<^verbatim>\<open>str\<close> on datetimes.
\<close>

definition Obra_cells :: "(datetime \<Rightarrow> string) \<Rightarrow> Obra \<Rightarrow> string list" where
  "Obra_cells str_datetime obra =
     [titulo obra, editora obra, foto obra, str_list (autores obra), str_int (id_obra obra),
      str_datetime (created_at obra), str_datetime (updated_at obra)]"

text \<open>\<^verbatim>\<open>fc.writeheader()\<close>, then \<^verbatim>\<open>fc.writerows(obras_list)\<close>.\<close>

definition csv_document :: "(datetime \<Rightarrow> string) \<Rightarrow> Obra list \<Rightarrow> string" where
  "csv_document str_datetime obras_list =
     writerow Obra_keys @ concat (map (\<lambda>obra. writerow (Obra_cells str_datetime obra)) obras_list)"

section \<open>The handler of GET /file-obras and its temporary file\<close>

text \<open>The files that exist, each with its name and its content.\<close>

type_synonym filesystem = "(string \<times> string) list"

text \<open>
  The name that \<^verbatim>\<open>NamedTemporaryFile\<close> picks is one that no file has. Here it is a name
  longer than every name in use.
\<close>

definition fresh_name :: "filesystem \<Rightarrow> string" where
  "fresh_name fs = ''/tmp/tmp'' @ replicate (Suc (fold max (map (\<lambda>f. length (fst f)) fs) 0)) CHR ''x''"

text \<open>
  What happens to the writes into the file: they all succeed, or one raises \<^verbatim>\<open>OSError\<close>
  (a full disk, say) when only the given number of characters got through.
\<close>

datatype disk = Write_ok | Write_fails nat

text \<open>
  \<^verbatim>\<open>FileResponse(f.name, media_type=..., filename=..., background=BackgroundTask(cleanup,
  f.name))\<close>: the path, the media type, the file name of the attachment, and the
  argument of the clean-up task.
\<close>

datatype FileResponse = FileResponse string string string string

definition nenhuma_obra :: string where
  "nenhuma_obra = ''Nenhuma obra para exportar!''"

text \<open>
  \<^verbatim>\<open>get_file_obras\<close>. \<^verbatim>\<open>NamedTemporaryFile(..., delete=False)\<close> creates the file; leaving
  the \<^verbatim>\<open>with\<close> block closes it and, with \<^verbatim>\<open>delete=False\<close>, does not remove it, on the
  normal way out and on an exception alike. The handler has no other statement that
  removes the file: that is left to the background task of the response.
\<close>

definition get_file_obras ::
  "(datetime \<Rightarrow> string) \<Rightarrow> disk \<Rightarrow> filesystem \<Rightarrow> Obras \<Rightarrow> filter_date option
     \<Rightarrow> FileResponse response \<times> filesystem" where
  "get_file_obras str_datetime d fs s data_inicial =
     (case get_all_as_dict_filtered s data_inicial of
        Inl e \<Rightarrow> (Uncaught e, fs)
      | Inr obras_list \<Rightarrow>
          if obras_list = [] then (HTTPException 404 nenhuma_obra, fs)
          else (let name = fresh_name fs; doc = csv_document str_datetime obras_list
                in case d of
                     Write_ok \<Rightarrow>
                       (Response (FileResponse name ''text/csv'' ''obras.csv'' name),
                        fs @ [(name, doc)])
                   | Write_fails n \<Rightarrow> (Uncaught OSError, fs @ [(name, take n doc)])))"

text \<open>\<^verbatim>\<open>cleanup\<close>: \<^verbatim>\<open>os.remove\<close> removes the file, and raises if there is none.\<close>

definition cleanup :: "filesystem \<Rightarrow> string \<Rightarrow> py_error + filesystem" where
  "cleanup fs temp_file =
     (if temp_file \<in> fst ` set fs then Inr (filter (\<lambda>f. fst f \<noteq> temp_file) fs) else Inl OSError)"

text \<open>
  A response that is sent in full: the framework sends the content of the file, then
  runs the background task. The result is the body sent and the files left. What the
  framework does when the transmission breaks off is not modelled.
\<close>

fun send_in_full :: "filesystem \<Rightarrow> FileResponse \<Rightarrow> py_error + string \<times> filesystem" where
  "send_in_full fs (FileResponse path media_type filename temp_file) =
     (case map_of fs path of
        None \<Rightarrow> Inl OSError
      | Some body \<Rightarrow> (case cleanup fs temp_file of Inl e \<Rightarrow> Inl e | Inr fs' \<Rightarrow> Inr (body, fs')))"

text \<open>A rendering of datetimes for the examples: the number of microseconds.\<close>

definition str_micro :: "datetime \<Rightarrow> string" where
  "str_micro t = str_int t"

section \<open>The parser of the autores cell\<close>

text \<open>
  What the handler does with the cell: \<^verbatim>\<open>literal_eval\<close>, then the validation of the field
  \<^verbatim>\<open>autores\<close> of \<^verbatim>\<open>CreateObra\<close>.
\<close>

definition autores_of_cell :: "string option \<Rightarrow> py_error + string list" where
  "autores_of_cell cell = (case literal_eval cell of Inl e \<Rightarrow> Inl e | Inr v \<Rightarrow> list_validator v)"

text \<open>A value that is a text, and a value that is a list or a tuple of texts.\<close>

fun is_text :: "pyval \<Rightarrow> bool" where
  "is_text (PyStr s) = True"
| "is_text v = False"

fun is_text_sequence :: "pyval \<Rightarrow> bool" where
  "is_text_sequence (PyList vs) = list_all is_text vs"
| "is_text_sequence (PyTuple vs) = list_all is_text vs"
| "is_text_sequence v = False"

text \<open>
  The values with elements that the validation of a list takes: a list, a tuple, a set.
  \<open>members\<close> gives their elements.
\<close>

fun is_collection :: "pyval \<Rightarrow> bool" where
  "is_collection (PyList vs) = True"
| "is_collection (PyTuple vs) = True"
| "is_collection (PySet vs) = True"
| "is_collection v = False"

fun members :: "pyval \<Rightarrow> pyval list" where
  "members (PyList vs) = vs"
| "members (PyTuple vs) = vs"
| "members (PySet vs) = vs"
| "members v = []"

text \<open>The elements that are never taken for a text: \<open>None\<close>, and a value with elements.\<close>

fun no_text :: "pyval \<Rightarrow> bool" where
  "no_text PyNone = True"
| "no_text (PyList vs) = True"
| "no_text (PyTuple vs) = True"
| "no_text (PySet vs) = True"
| "no_text (PyDict kvs) = True"
| "no_text v = False"

text \<open>
  A text in quotes, written without escapes: the quote is the single or the double one,
  and the text has neither that quote nor a backslash, a line end or a NUL.
\<close>

definition plain :: "char \<times> string \<Rightarrow> bool" where
  "plain e \<longleftrightarrow>
     (fst e = squote \<or> fst e = quotechar)
     \<and> list_all (\<lambda>c. c \<noteq> fst e \<and> c \<noteq> backslash \<and> c \<noteq> LF \<and> c \<noteq> CR \<and> c \<noteq> CHR 0x00) (snd e)"

definition quoted :: "char \<times> string \<Rightarrow> string" where
  "quoted e = fst e # snd e @ [fst e]"

text \<open>The elements joined by a comma and \<open>n\<close> spaces.\<close>

fun join_sep :: "nat \<Rightarrow> string list \<Rightarrow> string" where
  "join_sep n [] = []"
| "join_sep n [x] = x"
| "join_sep n (x # y # ys) = x @ CHR '','' # replicate n CHR '' '' @ join_sep n (y # ys)"

text \<open>The bracketed sequence of the quoted texts.\<close>

definition bracketed :: "nat \<Rightarrow> (char \<times> string) list \<Rightarrow> string" where
  "bracketed n es = ''['' @ join_sep n (map quoted es) @ '']''"

text \<open>Tokens joined by commas.\<close>

fun join_COMMA :: "token list \<Rightarrow> token list" where
  "join_COMMA [] = []"
| "join_COMMA [t] = [t]"
| "join_COMMA (t # u # ts) = t # COMMA # join_COMMA (u # ts)"

text \<open>The tokens of a part of the input, put before the tokens of the rest.\<close>

definition emit :: "token list \<Rightarrow> py_error + token list \<Rightarrow> py_error + token list" where
  "emit ts r = (case r of Inl e \<Rightarrow> Inl e | Inr ts' \<Rightarrow> Inr (ts @ ts'))"

text \<open>The cell \<^verbatim>\<open>[b'A']\<close>: a list whose one element is a bytes value.\<close>

definition cell_bytes :: string where
  "cell_bytes = ''[b'' @ [squote] @ ''A'' @ [squote] @ '']''"

text \<open>The cell \<^verbatim>\<open>['Ana', "Bruno"]\<close>, with one element in each kind of quotes.\<close>

definition cell_two_quotes :: string where
  "cell_two_quotes = bracketed 1 [(squote, ''Ana''), (quotechar, ''Bruno'')]"

text \<open>The cell \<^verbatim>\<open>{'A'}\<close>: a set with one text.\<close>

definition cell_set :: string where
  "cell_set = ''{'' @ [squote] @ ''A'' @ [squote] @ ''}''"

text \<open>An upload whose one row has the cell \<^verbatim>\<open>[b'A']\<close>, and one whose row has the cell \<^verbatim>\<open>7\<close>.\<close>

definition upload_bytes :: string where
  "upload_bytes = ''titulo,editora,foto,autores'' @ [LF] @ ''A,E,u,'' @ cell_bytes @ [LF]"

definition upload_number :: string where
  "upload_number = ''titulo,editora,foto,autores'' @ [LF] @ ''A,E,u,7'' @ [LF]"

section \<open>Exporting and importing again\<close>










section \<open>Facts about the store\<close>

lemma current_id_append: "current_id (snd (Obras_append s obra t1 t2)) = current_id s + 1"
  by (simp add: Obras_append_def Let_def)

lemma current_id_update: "current_id (snd (Obras_update s i obra t)) = current_id s"
  by (simp add: Obras_update_def Let_def split: option.split)

lemma current_id_delete: "current_id (snd (Obras_delete s i)) = current_id s"
  by (simp add: Obras_delete_def split: option.split)

lemma id_append: "id_obra (fst (Obras_append s obra t1 t2)) = current_id s + 1"
  by (simp add: Obras_append_def Let_def mk_Obra_def)

lemma obras_append:
  "obras (snd (Obras_append s obra t1 t2)) = obras s @ [mk_Obra obra (current_id s + 1) t2 t1]"
  by (simp add: Obras_append_def Let_def)

text \<open>The index search finds nothing exactly when no record has the id.\<close>

lemma matching_None: "matching_obra_index xs i = None \<longleftrightarrow> (\<forall>r\<in>set xs. id_obra r \<noteq> i)"
  by (induction xs) auto

text \<open>What it finds splits the list at the first record with the id.\<close>

lemma matching_Some:
  "matching_obra_index xs i = Some k \<Longrightarrow>
     \<exists>pre old post. xs = pre @ old # post \<and> length pre = k \<and> id_obra old = i
       \<and> (\<forall>r\<in>set pre. id_obra r \<noteq> i)"
proof (induction xs arbitrary: k)
  case Nil
  then show ?case by simp
next
  case (Cons x xs)
  show ?case
  proof (cases "id_obra x = i")
    case True
    with Cons.prems have "k = 0" by simp
    with True have "x # xs = [] @ x # xs \<and> length ([] :: Obra list) = k \<and> id_obra x = i
        \<and> (\<forall>r\<in>set []. id_obra r \<noteq> i)"
      by simp
    then show ?thesis by blast
  next
    case False
    with Cons.prems obtain j where j: "matching_obra_index xs i = Some j" and k: "k = Suc j"
      by auto
    from Cons.IH [OF j] obtain pre old post where
      "xs = pre @ old # post" "length pre = j" "id_obra old = i" "\<forall>r\<in>set pre. id_obra r \<noteq> i"
      by blast
    with False k have "x # xs = (x # pre) @ old # post \<and> length (x # pre) = k \<and> id_obra old = i
        \<and> (\<forall>r\<in>set (x # pre). id_obra r \<noteq> i)"
      by simp
    then show ?thesis by blast
  qed
qed

lemma nth_split: "length pre = k \<Longrightarrow> (pre @ old # post) ! k = old"
  by (simp add: nth_append)

lemma update_split: "length pre = k \<Longrightarrow> (pre @ old # post)[k := new] = pre @ new # post"
  by (simp add: list_update_append)

lemma pop_split: "length pre = k \<Longrightarrow> take k (pre @ old # post) @ drop (Suc k) (pre @ old # post) = pre @ post"
  by simp

lemma map_upt_shift:
  "map f [Suc 0..<Suc (Suc n)] = f (Suc 0) # map (\<lambda>k. f (Suc k)) [Suc 0..<Suc n]"
proof -
  have "[Suc 0..<Suc (Suc n)] = Suc 0 # map Suc [Suc 0..<Suc n]"
    by (simp add: upt_conv_Cons map_Suc_upt del: upt_Suc)
  then show ?thesis by (simp add: comp_def del: upt_Suc)
qed

text \<open>From any store, the appends of a history return the counter's next values.\<close>

lemma appended_ids_from:
  "appended_ids s ops = map (\<lambda>k. current_id s + int k) [1..<Suc (count_appends ops)]"
proof (induction ops arbitrary: s)
  case Nil
  then show ?case by (simp add: count_appends_def)
next
  case (Cons a ops)
  show ?case
  proof (cases a)
    case (Append obra t1 t2)
    have "count_appends (a # ops) = Suc (count_appends ops)"
      by (simp add: Append count_appends_def)
    then show ?thesis
      by (simp add: Append Cons.IH map_upt_shift current_id_append id_append
          add.assoc add.commute del: upt_Suc)
  next
    case (Update i obra t)
    then show ?thesis by (simp add: Cons.IH count_appends_def current_id_update)
  next
    case (Delete i)
    then show ?thesis by (simp add: Cons.IH count_appends_def current_id_delete)
  qed
qed

lemma current_id_step:
  "current_id (step s a) = current_id s + (if is_Append a then 1 else 0)"
  by (cases a) (simp_all add: current_id_append current_id_update current_id_delete)

lemma current_id_foldl:
  "current_id (foldl step s ops) = current_id s + int (count_appends ops)"
proof (induction ops arbitrary: s)
  case Nil
  then show ?case by (simp add: count_appends_def)
next
  case (Cons a ops)
  then show ?case by (simp add: count_appends_def current_id_step)
qed

lemma current_id_run: "current_id (run ops) = int (count_appends ops)"
  by (simp add: run_def current_id_foldl Obras_init_def)


lemma store_inv_init: "store_inv Obras_init"
  by (simp add: store_inv_def ids_def Obras_init_def)

lemma ids_append: "ids (snd (Obras_append s obra t1 t2)) = ids s @ [current_id s + 1]"
  by (simp add: ids_def obras_append mk_Obra_def)

lemma ids_update: "ids (snd (Obras_update s i obra t)) = ids s"
proof (cases "matching_obra_index (obras s) i")
  case None
  then show ?thesis by (simp add: Obras_update_def)
next
  case (Some k)
  from matching_Some [OF Some] obtain pre old post where
    sp: "obras s = pre @ old # post" "length pre = k" "id_obra old = i"
    by blast
  have "Obras_update s i obra t =
      (Some (mk_Obra obra (id_obra (obras s ! k)) (created_at (obras s ! k)) t),
       s\<lparr>obras := (obras s)[k := mk_Obra obra (id_obra (obras s ! k)) (created_at (obras s ! k)) t]\<rparr>)"
    by (simp add: Obras_update_def Some Let_def)
  with sp show ?thesis
    by (simp add: ids_def nth_split update_split mk_Obra_def)
qed

lemma obras_delete_present:
  assumes "matching_obra_index (obras s) i = Some k"
  shows "\<exists>pre old post. obras s = pre @ old # post \<and> (\<forall>r\<in>set pre. id_obra r \<noteq> i)
     \<and> id_obra old = i \<and> Obras_delete s i = (Some old, s\<lparr>obras := pre @ post\<rparr>)"
proof -
  from matching_Some [OF assms] obtain pre old post where
    sp: "obras s = pre @ old # post" "length pre = k" "id_obra old = i"
      "\<forall>r\<in>set pre. id_obra r \<noteq> i"
    by blast
  have "Obras_delete s i =
      (Some (obras s ! k), s\<lparr>obras := take k (obras s) @ drop (Suc k) (obras s)\<rparr>)"
    by (simp add: Obras_delete_def assms)
  with sp(1,2) have "Obras_delete s i = (Some old, s\<lparr>obras := pre @ post\<rparr>)"
    by (simp add: nth_split)
  with sp show ?thesis by blast
qed

lemma ids_delete_subset: "set (ids (snd (Obras_delete s i))) \<subseteq> set (ids s)"
proof (cases "matching_obra_index (obras s) i")
  case None
  then show ?thesis by (simp add: Obras_delete_def)
next
  case (Some k)
  from obras_delete_present [OF Some] obtain pre old post where
    "obras s = pre @ old # post" "Obras_delete s i = (Some old, s\<lparr>obras := pre @ post\<rparr>)"
    by blast
  then show ?thesis by (auto simp: ids_def)
qed

lemma distinct_delete: "distinct (ids s) \<Longrightarrow> distinct (ids (snd (Obras_delete s i)))"
proof (cases "matching_obra_index (obras s) i")
  case None
  assume "distinct (ids s)"
  with None show ?thesis by (simp add: Obras_delete_def)
next
  case (Some k)
  assume d: "distinct (ids s)"
  from obras_delete_present [OF Some] obtain pre old post where
    "obras s = pre @ old # post" "Obras_delete s i = (Some old, s\<lparr>obras := pre @ post\<rparr>)"
    by blast
  with d show ?thesis by (auto simp: ids_def)
qed

lemma store_inv_step: "store_inv s \<Longrightarrow> store_inv (step s a)"
proof (cases a)
  case (Append obra t1 t2)
  assume "store_inv s"
  then have d: "distinct (ids s)" and b: "\<forall>i\<in>set (ids s). 0 < i \<and> i \<le> current_id s"
    and n: "0 \<le> current_id s"
    by (simp_all add: store_inv_def list_all_iff)
  from b have "current_id s + 1 \<notin> set (ids s)" by auto
  then show ?thesis
    using d b n by (auto simp: Append store_inv_def list_all_iff ids_append current_id_append)
next
  case (Update i obra t)
  assume "store_inv s"
  then show ?thesis
    by (simp add: Update store_inv_def ids_update current_id_update)
next
  case (Delete i)
  assume "store_inv s"
  then have d: "distinct (ids s)" and b: "\<forall>i\<in>set (ids s). 0 < i \<and> i \<le> current_id s"
    and n: "0 \<le> current_id s"
    by (simp_all add: store_inv_def list_all_iff)
  from b ids_delete_subset [of s i]
  have "\<forall>j\<in>set (ids (snd (Obras_delete s i))). 0 < j \<and> j \<le> current_id s"
    by blast
  with distinct_delete [OF d, of i] n show ?thesis
    by (simp add: Delete store_inv_def list_all_iff current_id_delete)
qed

lemma store_inv_foldl: "store_inv s \<Longrightarrow> store_inv (foldl step s ops)"
  by (induction ops arbitrary: s) (simp_all add: store_inv_step)

lemma store_inv_run: "store_inv (run ops)"
  by (simp add: run_def store_inv_foldl store_inv_init)

lemma store_AB_obras:
  "obras store_AB = [mk_Obra obra_A 1 11 10, mk_Obra obra_B 2 21 20]"
  by (simp add: store_AB_def Obras_append_def Obras_init_def Let_def)

lemma store_AB_run: "store_AB = run [Append obra_A 10 11, Append obra_B 20 21]"
  by (simp add: store_AB_def run_def)


lemma absent_step:
  "i \<notin> set (ids s) \<and> i \<le> current_id s \<Longrightarrow> i \<notin> set (ids (step s a)) \<and> i \<le> current_id (step s a)"
proof (cases a)
  case (Append obra t1 t2)
  assume "i \<notin> set (ids s) \<and> i \<le> current_id s"
  then show ?thesis by (simp add: Append ids_append current_id_append)
next
  case (Update j obra t)
  assume "i \<notin> set (ids s) \<and> i \<le> current_id s"
  then show ?thesis by (simp add: Update ids_update current_id_update)
next
  case (Delete j)
  assume "i \<notin> set (ids s) \<and> i \<le> current_id s"
  with ids_delete_subset [of s j] show ?thesis
    by (auto simp: Delete current_id_delete)
qed

lemma absent_foldl:
  "i \<notin> set (ids s) \<and> i \<le> current_id s \<Longrightarrow> i \<notin> set (ids (foldl step s later))"
proof (induction later arbitrary: s)
  case Nil
  then show ?case by simp
next
  case (Cons a later)
  from absent_step [OF Cons.prems] have "i \<notin> set (ids (step s a)) \<and> i \<le> current_id (step s a)" .
  from Cons.IH [OF this] show ?case by simp
qed

lemma filtered_subset:
  "get_all_as_dict_filtered s fd = Inr rs \<Longrightarrow> set rs \<subseteq> set (obras s)"
proof (cases fd)
  case None
  assume "get_all_as_dict_filtered s fd = Inr rs"
  with None show ?thesis by simp
next
  case (Some d)
  assume a: "get_all_as_dict_filtered s fd = Inr rs"
  show ?thesis
  proof (cases d)
    case (Naive t)
    with a Some show ?thesis by auto
  next
    case (Aware t)
    with a Some show ?thesis by (auto split: if_splits)
  qed
qed

lemma ids_foldl_no_delete:
  "list_all (\<lambda>a. \<not> is_Delete a) ops \<Longrightarrow>
     ids (foldl step s ops) = ids s @ map (\<lambda>k. current_id s + int k) [1..<Suc (count_appends ops)]"
proof (induction ops arbitrary: s)
  case Nil
  then show ?case by (simp add: count_appends_def)
next
  case (Cons a ops)
  then have rest: "list_all (\<lambda>a. \<not> is_Delete a) ops" by simp
  show ?case
  proof (cases a)
    case (Append obra t1 t2)
    have "count_appends (a # ops) = Suc (count_appends ops)"
      by (simp add: Append count_appends_def)
    then show ?thesis
      by (simp add: Append Cons.IH [OF rest] map_upt_shift current_id_append ids_append
          add.assoc add.commute del: upt_Suc)
  next
    case (Update i obra t)
    then show ?thesis
      by (simp add: Cons.IH [OF rest] count_appends_def current_id_update ids_update)
  next
    case (Delete i)
    with Cons.prems show ?thesis by simp
  qed
qed

lemma spec_next_id_latest:
  assumes "store_inv s" and "current_id s \<in> set (ids s)"
  shows "spec_next_id (obras s) = current_id s + 1"
proof -
  from assms(2) have ne: "obras s \<noteq> []" by (auto simp: ids_def)
  from assms(1) have "\<forall>i\<in>set (ids s). i \<le> current_id s"
    by (simp add: store_inv_def list_all_iff)
  with assms(2) have "Max (set (ids s)) = current_id s"
    by (intro Max_eqI) auto
  with ne show ?thesis by (simp add: spec_next_id_def ids_def)
qed

section \<open>Facts about the upload\<close>

lemma row_dict_keys: "fst ` set (row_dict fieldnames row) = set fieldnames"
proof -
  have "length fieldnames \<le> length (map Some row @ replicate (length fieldnames - length row) None)"
    by simp
  then have "map fst (row_dict fieldnames row) = fieldnames"
    unfolding row_dict_def by (simp add: map_fst_zip_take)
  then have "set (map fst (row_dict fieldnames row)) = set fieldnames" by simp
  then show ?thesis by simp
qed

lemma getitem_KeyError:
  "getitem (row_dict fieldnames row) key = Inl KeyError \<longleftrightarrow> key \<notin> set fieldnames"
proof -
  have "map_of (rev (row_dict fieldnames row)) key = None
      \<longleftrightarrow> key \<notin> fst ` set (rev (row_dict fieldnames row))"
    by (rule map_of_eq_None_iff)
  then have "map_of (rev (row_dict fieldnames row)) key = None \<longleftrightarrow> key \<notin> set fieldnames"
    by (simp add: row_dict_keys)
  then show ?thesis
    by (cases "map_of (rev (row_dict fieldnames row)) key") (simp_all add: getitem_def)
qed

lemma getitem_Inl: "getitem d key = Inl e \<Longrightarrow> e = KeyError"
  by (simp add: getitem_def split: option.splits)

lemma row_missing_column:
  assumes "\<not> set required_columns \<subseteq> set fieldnames"
  shows "row_to_CreateObra (row_dict fieldnames row) = Inl KeyError"
proof -
  let ?d = "row_dict fieldnames row"
  from assms consider "''titulo'' \<notin> set fieldnames" | "''editora'' \<notin> set fieldnames"
    | "''foto'' \<notin> set fieldnames" | "''autores'' \<notin> set fieldnames"
    by (auto simp: required_columns_def)
  then have "getitem ?d ''titulo'' = Inl KeyError \<or> getitem ?d ''editora'' = Inl KeyError
      \<or> getitem ?d ''foto'' = Inl KeyError \<or> getitem ?d ''autores'' = Inl KeyError"
    by cases (simp_all add: getitem_KeyError)
  then show ?thesis
    unfolding row_to_CreateObra_def
    by (auto split: sum.splits dest: getitem_Inl)
qed

lemma upload_rows_missing_column:
  assumes "\<not> set required_columns \<subseteq> set fieldnames"
  shows "upload_rows fieldnames clock k rows err s results =
     (if list_ex (\<lambda>row. row \<noteq> []) rows then (Inl KeyError, s)
      else (case err of None \<Rightarrow> (Inr results, s) | Some e \<Rightarrow> (Inl e, s)))"
proof (induction rows)
  case Nil
  show ?case by simp
next
  case (Cons row rows)
  show ?case
  proof (cases "row = []")
    case True
    with Cons show ?thesis by simp
  next
    case False
    with row_missing_column [OF assms, of row] show ?thesis by simp
  qed
qed

section \<open>Evaluating the models on concrete inputs\<close>

lemmas reader_simps = parse_reset_def parse_process_char_def LF_def CR_def
  delimiter_def quotechar_def add_char_then_def parse_add_char_def parse_save_field_def
  field_limit_def

lemmas literal_simps = between_def emit_then_def in_body_def after_backslash_def
  literal_token_def number_token_def is_digit_def is_letter_def hex_value_def py_ord_def
  squote_def backslash_def quotechar_def LF_def CR_def parse_def name_node_def py_keywords_def
  value_at_def max_depth_def open_bracket_def attach_def display_def close_with_def
  close_bracket_def parse_comma_def parse_colon_def juxtaposed_def parse_atom_def hashed_def
  new_frame_def tuple_or_value_def parse_end_def potential_prefix_def

lemmas upload_simps = row_dict_def getitem_def row_to_CreateObra_def
  CreateObra_validate_def all_valid_def csv_mal_formatado_def Obras_append_def mk_Obra_def
  Let_def

lemma reader_header_only:
  "csv_reader upload_header_only = ([''titulo'', ''editora'', ''foto''] # [], None)"
  by (simp add: upload_header_only_def csv_reader_def reader_simps)

lemma reader_no_autores:
  "csv_reader upload_no_autores = ([''titulo'', ''editora'', ''foto''] # [[''A'', ''E'', ''u'']], None)"
  by (simp add: upload_no_autores_def csv_reader_def reader_simps)

lemma three_columns: "\<not> set required_columns \<subseteq> set [''titulo'', ''editora'', ''foto'']"
  by (simp add: required_columns_def)

lemma getitem_present:
  assumes "key \<in> set fieldnames"
  shows "\<exists>v. getitem (row_dict fieldnames row) key = Inr v"
proof (cases "getitem (row_dict fieldnames row) key")
  case (Inl e)
  then have "e = KeyError" by (rule getitem_Inl)
  with Inl assms show ?thesis by (simp add: getitem_KeyError)
next
  case (Inr v)
  then show ?thesis by blast
qed

text \<open>A row whose \<^verbatim>\<open>autores\<close> cell is no literal raises what \<^verbatim>\<open>literal_eval\<close> raises.\<close>

lemma row_bad_literal:
  assumes "set required_columns \<subseteq> set fieldnames"
    and "getitem (row_dict fieldnames row) ''autores'' = Inr cell"
    and "literal_eval cell = Inl e"
  shows "row_to_CreateObra (row_dict fieldnames row) = Inl e"
proof -
  from assms(1) have "''titulo'' \<in> set fieldnames" "''editora'' \<in> set fieldnames"
    "''foto'' \<in> set fieldnames"
    by (auto simp: required_columns_def)
  then obtain t ed f where
    "getitem (row_dict fieldnames row) ''titulo'' = Inr t"
    "getitem (row_dict fieldnames row) ''editora'' = Inr ed"
    "getitem (row_dict fieldnames row) ''foto'' = Inr f"
    using getitem_present by metis
  with assms(2,3) show ?thesis
    by (simp add: row_to_CreateObra_def)
qed

text \<open>Rows that are blank or well formed are passed, and their records appended.\<close>

lemma upload_rows_good:
  "map (\<lambda>row. row_to_CreateObra (row_dict fieldnames row)) (filter (\<lambda>row. row \<noteq> []) good)
       = map Inr cs \<Longrightarrow>
   upload_rows fieldnames clock k (good @ rest) err s results =
     upload_rows fieldnames clock (k + length cs) rest err (append_all s clock k cs)
       (results @ appended s clock k cs)"
proof (induction good arbitrary: k s results cs)
  case Nil
  then show ?case by simp
next
  case (Cons row good)
  show ?case
  proof (cases "row = []")
    case True
    with Cons.prems have "map (\<lambda>row. row_to_CreateObra (row_dict fieldnames row))
        (filter (\<lambda>row. row \<noteq> []) good) = map Inr cs"
      by simp
    from Cons.IH [OF this] True show ?thesis by simp
  next
    case False
    with Cons.prems obtain c cs' where cs: "cs = c # cs'"
      and c: "row_to_CreateObra (row_dict fieldnames row) = Inr c"
      and rest: "map (\<lambda>row. row_to_CreateObra (row_dict fieldnames row))
        (filter (\<lambda>row. row \<noteq> []) good) = map Inr cs'"
      by (cases cs) auto
    obtain r s' where a: "Obras_append s c (fst (clock k)) (snd (clock k)) = (r, s')"
      by (cases "Obras_append s c (fst (clock k)) (snd (clock k))")
    from Cons.IH [OF rest, of "Suc k" s' "results @ [r]"] False c a cs
    show ?thesis by simp
  qed
qed

lemma upload_rows_bad:
  assumes "row \<noteq> []" and "row_to_CreateObra (row_dict fieldnames row) = Inl e"
  shows "upload_rows fieldnames clock k (row # rest) err s results = (Inl e, s)"
  using assms by simp

lemma obras_append_all:
  "obras (append_all s clock k cs) = obras s @ appended s clock k cs"
proof (induction cs arbitrary: s k)
  case Nil
  then show ?case by simp
next
  case (Cons c cs)
  have "obras (snd (Obras_append s c (fst (clock k)) (snd (clock k))))
      = obras s @ [fst (Obras_append s c (fst (clock k)) (snd (clock k)))]"
    by (simp add: Obras_append_def Let_def)
  with Cons.IH [of "snd (Obras_append s c (fst (clock k)) (snd (clock k)))" "Suc k"]
  show ?case by simp
qed

lemma length_appended: "length (appended s clock k cs) = length cs"
  by (induction cs arbitrary: s k) simp_all

lemma reader_bad_second:
  "csv_reader upload_bad_second =
     ([''titulo'', ''editora'', ''foto'', ''autores'']
        # ([[''A'', ''E'', ''u'', ''[]'']] @ [''B'', ''F'', ''v'', ''[Ana]'']
             # [[''C'', ''G'', ''w'', ''[]'']]),
      None)"
  by (simp add: upload_bad_second_def csv_reader_def reader_simps)

lemma reader_open_bracket:
  "csv_reader upload_open_bracket =
     ([''titulo'', ''editora'', ''foto'', ''autores'']
        # ([[''A'', ''E'', ''u'', ''[]'']] @ [''B'', ''F'', ''v'', cell_open_bracket] # []),
      None)"
  by (simp add: upload_open_bracket_def cell_open_bracket_def csv_reader_def reader_simps)

lemma reader_list_key:
  "csv_reader upload_list_key =
     ([''titulo'', ''editora'', ''foto'', ''autores'']
        # ([[''A'', ''E'', ''u'', ''[]'']] @ [''B'', ''F'', ''v'', cell_list_key] # []),
      None)"
  by (simp add: upload_list_key_def cell_list_key_def csv_reader_def reader_simps)

lemma reader_bare_CR:
  "csv_reader upload_bare_CR = ([''titulo'', ''editora'', ''foto''] # [], Some CsvError)"
  by (simp add: upload_bare_CR_def csv_reader_def reader_simps)

lemmas writer_simps = csv_document_def writerow_def join_append_def needs_quotes_def
  double_quotes_def Obra_keys_def Obra_cells_def str_list_def repr_str_def repr_quote_def
  repr_char_def isprintable_def hexdigit_def str_int_def digits_of.simps str_micro_def

lemma store_AB_eq:
  "store_AB = \<lparr>obras = [mk_Obra obra_A 1 11 10, mk_Obra obra_B 2 21 20], current_id = 2\<rparr>"
  by (simp add: store_AB_def Obras_append_def Obras_init_def Let_def)

section \<open>Facts about the tokenizer and the parser\<close>

lemma lex_Cons:
  "lex st (c # cs) = (case lex_char st c of Inl e \<Rightarrow> Inl e | Inr (ts, st') \<Rightarrow> emit ts (lex st' cs))"
  by (simp add: emit_def split: sum.split prod.split)

lemma emit_Nil: "emit [] r = r"
  by (cases r) (simp_all add: emit_def)

lemma emit_emit: "emit ts (emit us r) = emit (ts @ us) r"
  by (cases r) (simp_all add: emit_def)

text \<open>A plain text is read up to its closing quote.\<close>

lemma lex_plain_body:
  assumes "q = squote \<or> q = quotechar"
    and "list_all (\<lambda>c. c \<noteq> q \<and> c \<noteq> backslash \<and> c \<noteq> LF \<and> c \<noteq> CR \<and> c \<noteq> CHR 0x00) s"
  shows "lex (Body False q acc) (s @ q # rest) = emit [STRING (acc @ s)] (lex Between rest)"
  using assms(2)
proof (induction s arbitrary: acc)
  case Nil
  show ?case
    by (simp add: lex_Cons in_body_def literal_token_def del: lex.simps)
next
  case (Cons c s)
  then have c: "c \<noteq> q" "c \<noteq> backslash" "c \<noteq> LF" "c \<noteq> CR" "c \<noteq> CHR 0x00"
    and s: "list_all (\<lambda>c. c \<noteq> q \<and> c \<noteq> backslash \<and> c \<noteq> LF \<and> c \<noteq> CR \<and> c \<noteq> CHR 0x00) s"
    by simp_all
  have "lex (Body False q acc) ((c # s) @ q # rest) = lex (Body False q (acc @ [c])) (s @ q # rest)"
    using c by (simp add: lex_Cons in_body_def emit_Nil del: lex.simps)
  with Cons.IH [OF s, of "acc @ [c]"] show ?case by simp
qed

lemma lex_spaces: "lex Between (replicate n CHR '' '' @ rest) = lex Between rest"
  by (induction n) (simp_all add: lex_Cons between_def emit_Nil del: lex.simps)

lemma lex_comma: "lex Between (CHR '','' # rest) = emit [COMMA] (lex Between rest)"
  by (simp add: lex_Cons between_def del: lex.simps)

lemma lex_rsqb: "lex Between '']'' = Inr [RSQB]"
  by (simp add: between_def)

text \<open>A quoted plain text, followed by a comma or the closing bracket, is one token.\<close>

lemma lex_quoted:
  assumes "plain e" and "c = CHR '','' \<or> c = CHR '']'' \<or> c = CHR ''}''"
  shows "lex Between (quoted e @ c # cs) = emit [STRING (snd e)] (lex Between (c # cs))"
proof -
  obtain q s where e: "e = (q, s)" by (cases e)
  from assms(1) e have q: "q = squote \<or> q = quotechar"
    and s: "list_all (\<lambda>c. c \<noteq> q \<and> c \<noteq> backslash \<and> c \<noteq> LF \<and> c \<noteq> CR \<and> c \<noteq> CHR 0x00) s"
    by (simp_all add: plain_def)
  from q assms(2) have cq: "c \<noteq> q" by (auto simp: squote_def quotechar_def)
  have start: "lex Between (q # s @ q # c # cs) = lex (Opened False q) (s @ q # c # cs)"
    using q by (auto simp: lex_Cons between_def emit_Nil squote_def quotechar_def simp del: lex.simps)
  show ?thesis
  proof (cases s)
    case Nil
    have "lex (Opened False q) (q # c # cs) = lex (Empty2 False q) (c # cs)"
      by (simp add: lex_Cons emit_Nil del: lex.simps)
    also have "\<dots> = emit [STRING []] (lex Between (c # cs))"
      using cq assms(2)
      by (auto simp: lex_Cons emit_then_def between_def literal_token_def emit_emit
          simp del: lex.simps)
    finally show ?thesis using start Nil e by (simp add: quoted_def)
  next
    case (Cons d s')
    with s have d: "d \<noteq> q" "d \<noteq> backslash" "d \<noteq> LF" "d \<noteq> CR" "d \<noteq> CHR 0x00"
      and s': "list_all (\<lambda>c. c \<noteq> q \<and> c \<noteq> backslash \<and> c \<noteq> LF \<and> c \<noteq> CR \<and> c \<noteq> CHR 0x00) s'"
      by simp_all
    have "lex (Opened False q) ((d # s') @ q # c # cs) = lex (Body False q [d]) (s' @ q # c # cs)"
      using d by (simp add: lex_Cons in_body_def emit_Nil del: lex.simps)
    also have "\<dots> = emit [STRING ([d] @ s')] (lex Between (c # cs))"
      by (rule lex_plain_body [OF q s'])
    finally show ?thesis using start Cons e by (simp add: quoted_def)
  qed
qed

text \<open>The elements of a bracketed sequence, up to the bracket that closes it.\<close>

lemma lex_elements:
  "list_all plain es \<Longrightarrow>
     lex Between (join_sep n (map quoted es) @ '']'')
       = Inr (join_COMMA (map (\<lambda>e. STRING (snd e)) es) @ [RSQB])"
proof (induction es rule: induct_list012)
  case 1
  show ?case by (simp add: between_def)
next
  case (2 e)
  then have "plain e" by simp
  from lex_quoted [OF this, of "CHR '']''" "[]"] show ?case
    by (simp add: lex_rsqb emit_def del: lex.simps)
next
  case (3 e e' es)
  then have e: "plain e" and rest: "list_all plain (e' # es)" by simp_all
  have "lex Between (join_sep n (map quoted (e # e' # es)) @ '']'')
      = lex Between (quoted e @ CHR '','' # (replicate n CHR '' '' @ join_sep n (map quoted (e' # es)) @ '']''))"
    by simp
  also have "\<dots> = emit [STRING (snd e)]
      (lex Between (CHR '','' # (replicate n CHR '' '' @ join_sep n (map quoted (e' # es)) @ '']'')))"
    by (rule lex_quoted [OF e]) simp
  also have "\<dots> = emit [STRING (snd e)] (emit [COMMA]
      (lex Between (join_sep n (map quoted (e' # es)) @ '']'')))"
    by (simp only: lex_comma lex_spaces)
  also have "\<dots> = Inr (join_COMMA (map (\<lambda>e. STRING (snd e)) (e # e' # es)) @ [RSQB])"
    using "3.IH"(2) [OF rest] by (simp add: emit_def)
  finally show ?case .
qed

text \<open>The tokens of a list display of strings give the list of these strings.\<close>

lemma parse_tokens_strings:
  "pos = After_open \<or> pos = After_comma \<Longrightarrow>
   parse_tokens
       ([\<lparr>bracket_kind = Square, elts = acc, dict_keys = [], pending_key = None, has_comma = c\<rparr>,
         new_frame Top],
        pos)
       (join_COMMA (map (\<lambda>e. STRING (snd e)) es) @ [RSQB])
     = Inr (List_display (acc @ map (\<lambda>e. Constant (PyStr (snd e))) es))"
proof (induction es arbitrary: acc c pos rule: induct_list012)
  case 1
  then show ?case
    by (auto simp: close_bracket_def close_with_def attach_def display_def tuple_or_value_def
        value_at_def parse_end_def new_frame_def)
next
  case (2 e)
  then show ?case
    by (auto simp: parse_atom_def close_bracket_def close_with_def attach_def display_def
        tuple_or_value_def value_at_def parse_end_def new_frame_def)
next
  case (3 e e' es)
  have "parse_tokens
      ([\<lparr>bracket_kind = Square, elts = acc, dict_keys = [], pending_key = None, has_comma = c\<rparr>,
        new_frame Top],
       pos)
      (join_COMMA (map (\<lambda>e. STRING (snd e)) (e # e' # es)) @ [RSQB])
    = parse_tokens
      ([\<lparr>bracket_kind = Square, elts = acc @ [Constant (PyStr (snd e))], dict_keys = [],
          pending_key = None, has_comma = True\<rparr>, new_frame Top], After_comma)
      (join_COMMA (map (\<lambda>e. STRING (snd e)) (e' # es)) @ [RSQB])"
    using "3.prems"
    by (auto simp: parse_atom_def parse_comma_def attach_def value_at_def)
  also have "\<dots> = Inr (List_display
      ((acc @ [Constant (PyStr (snd e))]) @ map (\<lambda>e. Constant (PyStr (snd e))) (e' # es)))"
    by (rule "3.IH"(2)) simp
  finally show ?case by simp
qed

lemma parse_strings:
  "parse (LSQB # join_COMMA (map (\<lambda>e. STRING (snd e)) es) @ [RSQB])
     = Inr (List_display (map (\<lambda>e. Constant (PyStr (snd e))) es))"
proof -
  have "parse (LSQB # join_COMMA (map (\<lambda>e. STRING (snd e)) es) @ [RSQB])
      = parse_tokens
          ([\<lparr>bracket_kind = Square, elts = [], dict_keys = [], pending_key = None,
              has_comma = False\<rparr>, new_frame Top], After_open)
          (join_COMMA (map (\<lambda>e. STRING (snd e)) es) @ [RSQB])"
    by (simp add: parse_def open_bracket_def value_at_def max_depth_def new_frame_def)
  also have "\<dots> = Inr (List_display ([] @ map (\<lambda>e. Constant (PyStr (snd e))) es))"
    by (rule parse_tokens_strings) simp
  finally show ?thesis by simp
qed

lemma collect_constants: "collect (map convert (map Constant vs)) = Inr vs"
  by (induction vs) simp_all

lemma convert_strings:
  "convert (List_display (map (\<lambda>e. Constant (PyStr (snd e))) es))
     = Inr (PyList (map (\<lambda>e. PyStr (snd e)) es))"
proof -
  have "map (\<lambda>e. Constant (PyStr (snd e))) es = map Constant (map (\<lambda>e. PyStr (snd e)) es)"
    by simp
  then show ?thesis
    by (simp only: convert.simps collect_constants sum.case)
qed

lemma all_valid_texts: "all_valid (map str_validator (map (\<lambda>e. PyStr (snd e)) es)) = Inr (map snd es)"
proof -
  have m: "map str_validator (map (\<lambda>e. PyStr (snd e)) es) = map Inr (map snd es)"
    by (induction es) simp_all
  have "Inl ValidationError \<notin> set (map Inr (map snd es) :: (py_error + string) list)"
    by auto
  moreover have "\<not> list_ex isl (map Inr (map snd es) :: (py_error + string) list)"
    by (induction es) simp_all
  moreover have "map projr (map Inr (map snd es) :: (py_error + string) list) = map snd es"
    by (induction es) simp_all
  ultimately show ?thesis
    unfolding all_valid_def m by simp
qed

text \<open>A bracketed sequence of plain quoted texts is accepted, and gives the texts.\<close>

lemma literal_eval_bracketed:
  assumes "list_all plain es"
  shows "literal_eval (Some (bracketed n es)) = Inr (PyList (map (\<lambda>e. PyStr (snd e)) es))"
proof -
  have "lex Between (bracketed n es)
      = emit [LSQB] (lex Between (join_sep n (map quoted es) @ '']''))"
    by (simp add: bracketed_def lex_Cons between_def del: lex.simps)
  also have "\<dots> = Inr (LSQB # join_COMMA (map (\<lambda>e. STRING (snd e)) es) @ [RSQB])"
    by (simp add: lex_elements [OF assms] emit_def)
  finally have l: "lex Between (bracketed n es)
      = Inr (LSQB # join_COMMA (map (\<lambda>e. STRING (snd e)) es) @ [RSQB])" .
  have "bracketed n es \<noteq> [] \<and> hd (bracketed n es) = CHR ''[''"
    by (simp add: bracketed_def)
  then show ?thesis
    by (simp add: l parse_strings convert_strings del: convert.simps)
qed

lemma autores_of_bracketed:
  assumes "list_all plain es"
  shows "autores_of_cell (Some (bracketed n es)) = Inr (map snd es)"
proof -
  have "autores_of_cell (Some (bracketed n es))
      = list_validator (PyList (map (\<lambda>e. PyStr (snd e)) es))"
    unfolding autores_of_cell_def literal_eval_bracketed [OF assms] by simp
  also have "\<dots> = all_valid (map str_validator (map (\<lambda>e. PyStr (snd e)) es))"
    by (simp only: list_validator.simps)
  also have "\<dots> = Inr (map snd es)"
    by (rule all_valid_texts)
  finally show ?thesis .
qed

lemma list_validator_not_collection:
  "\<not> is_collection v \<Longrightarrow> list_validator v = Inl ValidationError"
  by (cases v) simp_all

lemma str_validator_no_text: "no_text x \<Longrightarrow> str_validator x = Inl ValidationError"
  by (cases x) simp_all

lemma all_valid_no_text:
  assumes "x \<in> set vs" and "no_text x"
  shows "all_valid (map str_validator vs) = Inl ValidationError"
proof -
  from assms have "Inl ValidationError \<in> set (map str_validator vs)"
    using str_validator_no_text by (metis imageI set_map)
  then show ?thesis by (simp add: all_valid_def)
qed

text \<open>A list, a tuple or a set that holds \<open>None\<close> or a value with elements is not valid.\<close>

lemma list_validator_no_text:
  assumes "x \<in> set (members v)" and "no_text x"
  shows "list_validator v = Inl ValidationError"
proof (cases v)
  case (PyList vs)
  with assms all_valid_no_text [of x vs] show ?thesis by simp
next
  case (PyTuple vs)
  with assms all_valid_no_text [of x vs] show ?thesis by simp
next
  case (PySet vs)
  with assms have "x \<in> set (remdups vs)" by simp
  from all_valid_no_text [OF this assms(2)] PySet show ?thesis
    by (simp add: set_valid_def)
qed (use assms in simp_all)

lemma row_invalid_autores:
  assumes "set required_columns \<subseteq> set fieldnames"
    and "getitem (row_dict fieldnames row) ''autores'' = Inr cell"
    and "autores_of_cell cell = Inl ValidationError"
  shows "row_to_CreateObra (row_dict fieldnames row) = Inl ValidationError"
proof -
  from assms(1) have "''titulo'' \<in> set fieldnames" "''editora'' \<in> set fieldnames"
    "''foto'' \<in> set fieldnames"
    by (auto simp: required_columns_def)
  then obtain t ed f where g:
    "getitem (row_dict fieldnames row) ''titulo'' = Inr t"
    "getitem (row_dict fieldnames row) ''editora'' = Inr ed"
    "getitem (row_dict fieldnames row) ''foto'' = Inr f"
    using getitem_present by metis
  show ?thesis
  proof (cases "literal_eval cell")
    case (Inl e)
    with assms(3) have "e = ValidationError" by (simp add: autores_of_cell_def)
    with Inl g assms(2) show ?thesis by (simp add: row_to_CreateObra_def)
  next
    case (Inr v)
    with assms(3) have "list_validator v = Inl ValidationError"
      by (simp add: autores_of_cell_def)
    with Inr g assms(2) show ?thesis
      by (simp add: row_to_CreateObra_def CreateObra_validate_def split: option.split)
  qed
qed

lemma reader_bytes:
  "csv_reader upload_bytes
     = ([''titulo'', ''editora'', ''foto'', ''autores''] # [[''A'', ''E'', ''u'', cell_bytes]], None)"
  by (simp add: upload_bytes_def cell_bytes_def csv_reader_def reader_simps squote_def)

lemma reader_number:
  "csv_reader upload_number
     = ([''titulo'', ''editora'', ''foto'', ''autores''] # [[''A'', ''E'', ''u'', ''7'']], None)"
  by (simp add: upload_number_def csv_reader_def reader_simps)

lemma literal_eval_cell_bytes: "literal_eval (Some cell_bytes) = Inr (PyList [PyBytes ''A''])"
  by (simp add: cell_bytes_def literal_simps)

lemma literal_eval_cell_set: "literal_eval (Some cell_set) = Inr (PySet [PyStr ''A''])"
  by (simp add: cell_set_def literal_simps)

section \<open>The reader on what the writer wrote\<close>

















section \<open>The tokenizer on what repr wrote\<close>













section \<open>Importing what was exported\<close>
















section \<open>C1: the ids that appends return\<close>

text \<open>
  Claim C1. Start from the empty store and make any sequence of calls of append, update
  and delete. The ids that the appends return are 1, 2, 3, ... in call order, one for
  each append: they increase strictly, and no id is returned twice, whatever was
  deleted in between.
\<close>

theorem C1_appended_ids:
  "appended_ids Obras_init ops = map int [1..<Suc (count_appends ops)]
   \<and> sorted_wrt (<) (appended_ids Obras_init ops)
   \<and> distinct (appended_ids Obras_init ops)"
proof -
  have e: "appended_ids Obras_init ops = map int [1..<Suc (count_appends ops)]"
    by (simp add: appended_ids_from Obras_init_def del: upt_Suc)
  have s: "sorted_wrt (<) (map int [1..<Suc (count_appends ops)])"
    by (simp add: sorted_wrt_map del: upt_Suc)
  have d: "distinct (map int [1..<Suc (count_appends ops)])"
    by (simp add: distinct_map del: upt_Suc)
  from e s d show ?thesis by simp
qed

section \<open>C2: the two clock readings of append\<close>

text \<open>
  Claim C2, at the input where it fails. On the empty store, append is called while the
  clock moves on by one microsecond between its two readings (0, then 1). The argument
  \<^verbatim>\<open>updated_at=utcnow()\<close> is evaluated first and the default of \<^verbatim>\<open>created_at\<close> is
  produced afterwards, so the record that append returns and stores has
  \<open>updated_at = 0\<close> and \<open>created_at = 1\<close>: the two differ, and \<open>updated_at\<close> is the
  earlier one.
\<close>

theorem C2_append_reads_clock_twice:
  "updated_at (fst (Obras_append Obras_init obra_A 0 1)) = 0
   \<and> created_at (fst (Obras_append Obras_init obra_A 0 1)) = 1
   \<and> updated_at (fst (Obras_append Obras_init obra_A 0 1))
       < created_at (fst (Obras_append Obras_init obra_A 0 1))
   \<and> obras (snd (Obras_append Obras_init obra_A 0 1)) = [fst (Obras_append Obras_init obra_A 0 1)]"
  by (simp add: Obras_append_def Obras_init_def mk_Obra_def Let_def)

section \<open>C3: update\<close>

text \<open>
  Claim C3. In any store: if some record has the id, the list splits at the first such
  record \<open>old\<close>; update puts in its place the record with the four fields of the
  request, the id and \<open>created_at\<close> of \<open>old\<close> and \<open>updated_at = now\<close>, leaves
  every other record and the counter as they were, and returns the new record, which the
  handler answers with. If no record has the id, update returns \<open>None\<close>, the store
  is the same, and the handler raises 404 with the detail "Obra n?o encontrada!".
\<close>

theorem C3_update:
  "((\<exists>r\<in>set (obras s). id_obra r = i) \<longrightarrow>
      (\<exists>pre old post new.
         obras s = pre @ old # post \<and> (\<forall>r\<in>set pre. id_obra r \<noteq> i) \<and> id_obra old = i
         \<and> new = \<lparr>titulo = titulo c, editora = editora c, foto = foto c, autores = autores c,
                  id_obra = i, created_at = created_at old, updated_at = now\<rparr>
         \<and> Obras_update s i c now = (Some new, s\<lparr>obras := pre @ new # post\<rparr>)
         \<and> put_obras s i c now = (Response new, s\<lparr>obras := pre @ new # post\<rparr>)))
   \<and> ((\<forall>r\<in>set (obras s). id_obra r \<noteq> i) \<longrightarrow>
         Obras_update s i c now = (None, s)
         \<and> put_obras s i c now = (HTTPException 404 obra_nao_encontrada, s))"
proof (intro conjI impI)
  assume "\<exists>r\<in>set (obras s). id_obra r = i"
  then have "matching_obra_index (obras s) i \<noteq> None"
    by (simp add: matching_None)
  then obtain k where k: "matching_obra_index (obras s) i = Some k"
    by blast
  from matching_Some [OF k] obtain pre old post where
    sp: "obras s = pre @ old # post" "length pre = k" "id_obra old = i"
      "\<forall>r\<in>set pre. id_obra r \<noteq> i"
    by blast
  define new where "new = \<lparr>titulo = titulo c, editora = editora c, foto = foto c,
      autores = autores c, id_obra = i, created_at = created_at old, updated_at = now\<rparr>"
  have "Obras_update s i c now =
      (Some (mk_Obra c (id_obra (obras s ! k)) (created_at (obras s ! k)) now),
       s\<lparr>obras := (obras s)[k := mk_Obra c (id_obra (obras s ! k)) (created_at (obras s ! k)) now]\<rparr>)"
    by (simp add: Obras_update_def k Let_def)
  with sp have u: "Obras_update s i c now = (Some new, s\<lparr>obras := pre @ new # post\<rparr>)"
    by (simp add: nth_split update_split mk_Obra_def new_def)
  then have "put_obras s i c now = (Response new, s\<lparr>obras := pre @ new # post\<rparr>)"
    by (simp add: put_obras_def)
  with u sp new_def show "\<exists>pre old post new.
         obras s = pre @ old # post \<and> (\<forall>r\<in>set pre. id_obra r \<noteq> i) \<and> id_obra old = i
         \<and> new = \<lparr>titulo = titulo c, editora = editora c, foto = foto c, autores = autores c,
                  id_obra = i, created_at = created_at old, updated_at = now\<rparr>
         \<and> Obras_update s i c now = (Some new, s\<lparr>obras := pre @ new # post\<rparr>)
         \<and> put_obras s i c now = (Response new, s\<lparr>obras := pre @ new # post\<rparr>)"
    by blast
next
  assume a: "\<forall>r\<in>set (obras s). id_obra r \<noteq> i"
  then have n: "matching_obra_index (obras s) i = None"
    by (simp add: matching_None)
  then show "Obras_update s i c now = (None, s)"
    by (simp add: Obras_update_def)
  from n show "put_obras s i c now = (HTTPException 404 obra_nao_encontrada, s)"
    by (simp add: put_obras_def Obras_update_def)
qed

theorem C3_update_witness:
  "(\<exists>r\<in>set (obras store_AB). id_obra r = 1)
   \<and> (\<exists>pre old post new.
         obras store_AB = pre @ old # post \<and> (\<forall>r\<in>set pre. id_obra r \<noteq> 1) \<and> id_obra old = 1
         \<and> new = \<lparr>titulo = titulo obra_B, editora = editora obra_B, foto = foto obra_B,
                  autores = autores obra_B, id_obra = 1, created_at = created_at old,
                  updated_at = 30\<rparr>
         \<and> Obras_update store_AB 1 obra_B 30 = (Some new, store_AB\<lparr>obras := pre @ new # post\<rparr>)
         \<and> put_obras store_AB 1 obra_B 30 = (Response new, store_AB\<lparr>obras := pre @ new # post\<rparr>))
   \<and> put_obras store_AB 1 obra_B 30 =
       (Response (mk_Obra obra_B 1 11 30),
        store_AB\<lparr>obras := [mk_Obra obra_B 1 11 30, mk_Obra obra_B 2 21 20]\<rparr>)
   \<and> \<not> (\<exists>r\<in>set (obras store_AB). id_obra r = 7)
   \<and> Obras_update store_AB 7 obra_B 30 = (None, store_AB)
   \<and> put_obras store_AB 7 obra_B 30 = (HTTPException 404 obra_nao_encontrada, store_AB)"
proof -
  have h1: "\<exists>r\<in>set (obras store_AB). id_obra r = 1"
    by (simp add: store_AB_obras mk_Obra_def)
  have h2: "\<forall>r\<in>set (obras store_AB). id_obra r \<noteq> 7"
    by (simp add: store_AB_obras mk_Obra_def)
  have e: "put_obras store_AB 1 obra_B 30 =
       (Response (mk_Obra obra_B 1 11 30),
        store_AB\<lparr>obras := [mk_Obra obra_B 1 11 30, mk_Obra obra_B 2 21 20]\<rparr>)"
    by (simp add: put_obras_def Obras_update_def store_AB_obras mk_Obra_def Let_def)
  from h1 h2 e C3_update [of store_AB 1 obra_B 30] C3_update [of store_AB 7 obra_B 30]
  show ?thesis by blast
qed

section \<open>C4: delete\<close>

text \<open>
  Claim C4. In any store that a history of calls leads to: if some record has the id, the
  list splits at the first such record \<open>old\<close>; delete returns \<open>old\<close> (and the
  handler answers with it) and leaves the records before and after it as they were and in
  their order, with their ids; from then on, whatever calls follow, neither
  \<open>get_all\<close> nor a result of \<open>get_all_as_dict_filtered\<close> holds a record with the
  id. If no record has the id, as in the empty store, delete returns \<open>None\<close>, the
  store is the same, and the handler raises 404 with the detail "Obra n?o encontrada!".
\<close>

theorem C4_delete:
  "((\<exists>r\<in>set (obras (run ops)). id_obra r = i) \<longrightarrow>
      (\<exists>pre old post.
         obras (run ops) = pre @ old # post \<and> (\<forall>r\<in>set pre. id_obra r \<noteq> i) \<and> id_obra old = i
         \<and> Obras_delete (run ops) i = (Some old, (run ops)\<lparr>obras := pre @ post\<rparr>)
         \<and> delete_obras (run ops) i = (Response old, (run ops)\<lparr>obras := pre @ post\<rparr>))
      \<and> (\<forall>r\<in>set (get_all (foldl step (snd (Obras_delete (run ops) i)) later)). id_obra r \<noteq> i)
      \<and> (\<forall>fd rs. get_all_as_dict_filtered (foldl step (snd (Obras_delete (run ops) i)) later) fd = Inr rs
            \<longrightarrow> (\<forall>r\<in>set rs. id_obra r \<noteq> i)))
   \<and> ((\<forall>r\<in>set (obras (run ops)). id_obra r \<noteq> i) \<longrightarrow>
         Obras_delete (run ops) i = (None, run ops)
         \<and> delete_obras (run ops) i = (HTTPException 404 obra_nao_encontrada, run ops))"
proof (intro conjI impI)
  assume "\<forall>r\<in>set (obras (run ops)). id_obra r \<noteq> i"
  then have n: "matching_obra_index (obras (run ops)) i = None"
    by (simp add: matching_None)
  then show "Obras_delete (run ops) i = (None, run ops)"
    by (simp add: Obras_delete_def)
  from n show "delete_obras (run ops) i = (HTTPException 404 obra_nao_encontrada, run ops)"
    by (simp add: delete_obras_def Obras_delete_def)
next
  assume ex: "\<exists>r\<in>set (obras (run ops)). id_obra r = i"
  then have "matching_obra_index (obras (run ops)) i \<noteq> None"
    by (simp add: matching_None)
  then obtain k where k: "matching_obra_index (obras (run ops)) i = Some k"
    by blast
  from obras_delete_present [OF k] obtain pre old post where
    sp: "obras (run ops) = pre @ old # post" "\<forall>r\<in>set pre. id_obra r \<noteq> i" "id_obra old = i"
      "Obras_delete (run ops) i = (Some old, (run ops)\<lparr>obras := pre @ post\<rparr>)"
    by blast
  from sp(4) have h: "delete_obras (run ops) i = (Response old, (run ops)\<lparr>obras := pre @ post\<rparr>)"
    by (simp add: delete_obras_def)
  from sp h show "\<exists>pre old post.
         obras (run ops) = pre @ old # post \<and> (\<forall>r\<in>set pre. id_obra r \<noteq> i) \<and> id_obra old = i
         \<and> Obras_delete (run ops) i = (Some old, (run ops)\<lparr>obras := pre @ post\<rparr>)
         \<and> delete_obras (run ops) i = (Response old, (run ops)\<lparr>obras := pre @ post\<rparr>)"
    by blast
  have inv: "store_inv (run ops)" by (rule store_inv_run)
  from inv sp(1,3) have d: "distinct (map id_obra pre @ i # map id_obra post)"
    by (simp add: store_inv_def ids_def)
  from inv sp(1,3) have le: "i \<le> current_id (run ops)"
    by (simp add: store_inv_def ids_def)
  from d have "i \<notin> set (map id_obra (pre @ post))" by auto
  with sp(4) le have "i \<notin> set (ids (snd (Obras_delete (run ops) i)))
      \<and> i \<le> current_id (snd (Obras_delete (run ops) i))"
    by (simp add: ids_def)
  from absent_foldl [OF this, of later]
  have gone: "i \<notin> set (ids (foldl step (snd (Obras_delete (run ops) i)) later))" .
  then show "\<forall>r\<in>set (get_all (foldl step (snd (Obras_delete (run ops) i)) later)). id_obra r \<noteq> i"
    by (auto simp: ids_def get_all_def)
  show "\<forall>fd rs. get_all_as_dict_filtered (foldl step (snd (Obras_delete (run ops) i)) later) fd = Inr rs
            \<longrightarrow> (\<forall>r\<in>set rs. id_obra r \<noteq> i)"
  proof (intro allI impI ballI)
    fix fd rs r
    assume "get_all_as_dict_filtered (foldl step (snd (Obras_delete (run ops) i)) later) fd = Inr rs"
      and "r \<in> set rs"
    with filtered_subset have "r \<in> set (obras (foldl step (snd (Obras_delete (run ops) i)) later))"
      by blast
    with gone show "id_obra r \<noteq> i" by (auto simp: ids_def)
  qed
qed

theorem C4_delete_witness:
  "(\<exists>r\<in>set (obras (run [Append obra_A 10 11, Append obra_B 20 21])). id_obra r = 1)
   \<and> delete_obras (run [Append obra_A 10 11, Append obra_B 20 21]) 1 =
       (Response (mk_Obra obra_A 1 11 10),
        (run [Append obra_A 10 11, Append obra_B 20 21])\<lparr>obras := [mk_Obra obra_B 2 21 20]\<rparr>)
   \<and> \<not> (\<exists>r\<in>set (get_all (foldl step
            (snd (Obras_delete (run [Append obra_A 10 11, Append obra_B 20 21]) 1))
            [Append obra_A 30 31])). id_obra r = 1)
   \<and> \<not> (\<exists>r\<in>set (obras (run [])). id_obra r = 1)
   \<and> Obras_delete (run []) 1 = (None, run [])
   \<and> delete_obras (run []) 1 = (HTTPException 404 obra_nao_encontrada, run [])"
proof -
  have o: "obras (run [Append obra_A 10 11, Append obra_B 20 21])
      = [mk_Obra obra_A 1 11 10, mk_Obra obra_B 2 21 20]"
    by (simp add: run_def Obras_append_def Obras_init_def Let_def)
  have h1: "\<exists>r\<in>set (obras (run [Append obra_A 10 11, Append obra_B 20 21])). id_obra r = 1"
    by (simp add: o mk_Obra_def)
  have h2: "\<forall>r\<in>set (obras (run [])). id_obra r \<noteq> 1"
    by (simp add: run_def Obras_init_def)
  have e: "delete_obras (run [Append obra_A 10 11, Append obra_B 20 21]) 1 =
       (Response (mk_Obra obra_A 1 11 10),
        (run [Append obra_A 10 11, Append obra_B 20 21])\<lparr>obras := [mk_Obra obra_B 2 21 20]\<rparr>)"
    by (simp add: delete_obras_def Obras_delete_def o mk_Obra_def)
  from h1 h2 e
    C4_delete [of "[Append obra_A 10 11, Append obra_B 20 21]" 1 "[Append obra_A 30 31]"]
    C4_delete [of "[]" 1 "[]"]
  show ?thesis by blast
qed

section \<open>C8: the id that append assigns\<close>

text \<open>
  Claim C8 as stated fails. One append and the delete of its record leave the store
  empty with the counter at 1: the next append returns id 2, where "the current maximum
  plus one, starting at 1 when the Store is empty" is 1.
\<close>

theorem C8_max_plus_one_counterexample:
  "obras (run [Append obra_A 10 11, Delete 1]) = []
   \<and> spec_next_id (obras (run [Append obra_A 10 11, Delete 1])) = 1
   \<and> id_obra (fst (Obras_append (run [Append obra_A 10 11, Delete 1]) obra_B 20 21)) = 2"
  by (simp add: run_def Obras_append_def Obras_delete_def Obras_init_def mk_Obra_def Let_def
      spec_next_id_def)

text \<open>
  Claim C8, amended. In any store that a history of calls leads to, append assigns the
  counter plus one, which is one more than the number of appends made so far, and 1 in the
  store as created. That id is greater than every stored id. It is the current maximum id
  plus one whenever the record appended last is still stored, and so whenever the history
  has no delete.
\<close>

theorem C8_append_id:
  "id_obra (fst (Obras_append (run ops) c t1 t2)) = current_id (run ops) + 1
   \<and> id_obra (fst (Obras_append (run ops) c t1 t2)) = int (count_appends ops) + 1
   \<and> id_obra (fst (Obras_append Obras_init c t1 t2)) = 1
   \<and> (\<forall>r\<in>set (obras (run ops)). id_obra r < id_obra (fst (Obras_append (run ops) c t1 t2)))
   \<and> ((\<exists>r\<in>set (obras (run ops)). id_obra r = int (count_appends ops)) \<longrightarrow>
         id_obra (fst (Obras_append (run ops) c t1 t2)) = spec_next_id (obras (run ops)))
   \<and> (list_all (\<lambda>a. \<not> is_Delete a) ops \<longrightarrow>
         id_obra (fst (Obras_append (run ops) c t1 t2)) = spec_next_id (obras (run ops)))"
proof -
  have inv: "store_inv (run ops)" by (rule store_inv_run)
  have a: "id_obra (fst (Obras_append (run ops) c t1 t2)) = current_id (run ops) + 1"
    by (rule id_append)
  have b: "current_id (run ops) = int (count_appends ops)"
    by (rule current_id_run)
  have i: "id_obra (fst (Obras_append Obras_init c t1 t2)) = 1"
    by (simp add: id_append Obras_init_def)
  from inv have "\<forall>j\<in>set (ids (run ops)). j \<le> current_id (run ops)"
    by (simp add: store_inv_def list_all_iff)
  then have g: "\<forall>r\<in>set (obras (run ops)). id_obra r < current_id (run ops) + 1"
    by (auto simp: ids_def)
  have l: "spec_next_id (obras (run ops)) = current_id (run ops) + 1"
    if "\<exists>r\<in>set (obras (run ops)). id_obra r = int (count_appends ops)"
  proof -
    from that obtain r where "r \<in> set (obras (run ops))" "id_obra r = int (count_appends ops)"
      by blast
    then have "int (count_appends ops) \<in> id_obra ` set (obras (run ops))"
      by (metis imageI)
    with b have "current_id (run ops) \<in> set (ids (run ops))"
      by (simp add: ids_def)
    with inv show ?thesis by (rule spec_next_id_latest)
  qed
  have n: "spec_next_id (obras (run ops)) = current_id (run ops) + 1"
    if nd: "list_all (\<lambda>a. \<not> is_Delete a) ops"
  proof (cases "count_appends ops")
    case 0
    from ids_foldl_no_delete [OF nd, of Obras_init] 0 have "ids (run ops) = []"
      by (simp add: run_def ids_def Obras_init_def)
    with b 0 show ?thesis by (simp add: spec_next_id_def ids_def)
  next
    case (Suc m)
    from ids_foldl_no_delete [OF nd, of Obras_init]
    have "ids (run ops) = map int [1..<Suc (count_appends ops)]"
      by (simp add: run_def ids_def Obras_init_def del: upt_Suc)
    moreover from Suc have "count_appends ops \<in> set [1..<Suc (count_appends ops)]"
      by simp
    then have "int (count_appends ops) \<in> set (map int [1..<Suc (count_appends ops)])"
      by (metis imageI set_map)
    ultimately have "int (count_appends ops) \<in> set (ids (run ops))"
      by simp
    with b have "current_id (run ops) \<in> set (ids (run ops))" by simp
    with inv show ?thesis by (rule spec_next_id_latest)
  qed
  from a b i g l n show ?thesis by simp
qed

theorem C8_append_id_witness:
  "(\<exists>r\<in>set (obras (run [Append obra_A 10 11, Append obra_B 20 21, Delete 1])).
       id_obra r = int (count_appends [Append obra_A 10 11, Append obra_B 20 21, Delete 1]))
   \<and> id_obra (fst (Obras_append (run [Append obra_A 10 11, Append obra_B 20 21, Delete 1]) obra_A 30 31))
       = spec_next_id (obras (run [Append obra_A 10 11, Append obra_B 20 21, Delete 1]))
   \<and> id_obra (fst (Obras_append (run [Append obra_A 10 11, Append obra_B 20 21, Delete 1]) obra_A 30 31))
       = 3
   \<and> list_all (\<lambda>a. \<not> is_Delete a) [Append obra_A 10 11]
   \<and> id_obra (fst (Obras_append (run [Append obra_A 10 11]) obra_B 20 21))
       = spec_next_id (obras (run [Append obra_A 10 11]))
   \<and> id_obra (fst (Obras_append (run [Append obra_A 10 11]) obra_B 20 21)) = 2"
proof -
  have o: "obras (run [Append obra_A 10 11, Append obra_B 20 21, Delete 1]) = [mk_Obra obra_B 2 21 20]"
    by (simp add: run_def Obras_append_def Obras_delete_def Obras_init_def mk_Obra_def Let_def)
  have c: "count_appends [Append obra_A 10 11, Append obra_B 20 21, Delete 1] = 2"
    by (simp add: count_appends_def)
  have h1: "\<exists>r\<in>set (obras (run [Append obra_A 10 11, Append obra_B 20 21, Delete 1])).
       id_obra r = int (count_appends [Append obra_A 10 11, Append obra_B 20 21, Delete 1])"
    by (simp add: o c mk_Obra_def)
  have h2: "list_all (\<lambda>a. \<not> is_Delete a) [Append obra_A 10 11]"
    by simp
  have c1: "count_appends [Append obra_A 10 11] = 1"
    by (simp add: count_appends_def)
  from h1 h2 c c1
    C8_append_id [of "[Append obra_A 10 11, Append obra_B 20 21, Delete 1]" obra_A 30 31]
    C8_append_id [of "[Append obra_A 10 11]" obra_B 20 21]
  show ?thesis by simp
qed

section \<open>C5: an upload whose header lacks a required column\<close>

text \<open>
  Claim C5 as stated fails. The upload that consists of the header
  \<^verbatim>\<open>titulo,editora,foto\<close> alone lacks the column \<^verbatim>\<open>autores\<close>, and the handler answers
  200 with the empty list: a missing column is only noticed when a row is read.
\<close>

theorem C5_header_only_counterexample:
  "fst (csv_reader upload_header_only) = [[''titulo'', ''editora'', ''foto'']]
   \<and> \<not> set required_columns \<subseteq> set [''titulo'', ''editora'', ''foto'']
   \<and> post_upload_obras store_AB upload_header_only clock10 = (Response [], store_AB)"
  using three_columns by (simp add: post_upload_obras_def reader_header_only)

text \<open>
  Claim C5, amended. When the header that the reader yields lacks one of the four
  columns, the store is left as it was, whatever follows the header. What the handler
  answers depends on what the reader yields after the header. If it yields a row that is
  not blank, the handler raises 400 with the detail "CSV mal formatado!". If it yields no
  such row and reaches the end of the upload, the handler answers 200 with the empty list.
  If it yields no such row and then raises \<^verbatim>\<open>csv.Error\<close> (a carriage return inside a
  field without quotes, a field beyond the limit of 131072 characters), that exception
  escapes the handler, which catches \<^verbatim>\<open>KeyError\<close> only: the framework answers 500.
\<close>

theorem C5_missing_column:
  assumes "csv_reader file = (fieldnames # rows, err)"
    and "\<not> set required_columns \<subseteq> set fieldnames"
  shows "snd (post_upload_obras s file clock) = s
    \<and> (list_ex (\<lambda>row. row \<noteq> []) rows \<longrightarrow>
          post_upload_obras s file clock = (HTTPException 400 csv_mal_formatado, s))
    \<and> (\<not> list_ex (\<lambda>row. row \<noteq> []) rows \<and> err = None \<longrightarrow>
          post_upload_obras s file clock = (Response [], s))
    \<and> (\<not> list_ex (\<lambda>row. row \<noteq> []) rows \<and> err = Some CsvError \<longrightarrow>
          post_upload_obras s file clock = (Uncaught CsvError, s))"
proof -
  have u: "upload_rows fieldnames clock 0 rows err s [] =
     (if list_ex (\<lambda>row. row \<noteq> []) rows then (Inl KeyError, s)
      else (case err of None \<Rightarrow> (Inr [], s) | Some e \<Rightarrow> (Inl e, s)))"
    by (rule upload_rows_missing_column [OF assms(2)])
  show ?thesis
  proof (cases "list_ex (\<lambda>row. row \<noteq> []) rows")
    case True
    with u show ?thesis by (simp add: post_upload_obras_def assms(1))
  next
    case False
    show ?thesis
    proof (cases err)
      case None
      with u False show ?thesis by (simp add: post_upload_obras_def assms(1))
    next
      case (Some e)
      with u False have "upload_rows fieldnames clock 0 rows err s [] = (Inl e, s)" by simp
      then have "post_upload_obras s file clock
          = (if e = KeyError then (HTTPException 400 csv_mal_formatado, s) else (Uncaught e, s))"
        by (simp add: post_upload_obras_def assms(1))
      with False Some show ?thesis by auto
    qed
  qed
qed

theorem C5_missing_column_witness:
  "csv_reader upload_no_autores = ([''titulo'', ''editora'', ''foto''] # [[''A'', ''E'', ''u'']], None)
   \<and> \<not> set required_columns \<subseteq> set [''titulo'', ''editora'', ''foto'']
   \<and> list_ex (\<lambda>row. row \<noteq> []) [[''A'', ''E'', ''u'']]
   \<and> post_upload_obras store_AB upload_no_autores clock10
       = (HTTPException 400 csv_mal_formatado, store_AB)
   \<and> csv_reader upload_header_only = ([''titulo'', ''editora'', ''foto''] # [], None)
   \<and> \<not> list_ex (\<lambda>row. row \<noteq> []) ([] :: string list list)
   \<and> post_upload_obras store_AB upload_header_only clock10 = (Response [], store_AB)
   \<and> csv_reader upload_bare_CR = ([''titulo'', ''editora'', ''foto''] # [], Some CsvError)
   \<and> post_upload_obras store_AB upload_bare_CR clock10 = (Uncaught CsvError, store_AB)"
proof -
  note r1 = reader_no_autores and r2 = reader_header_only and r3 = reader_bare_CR
    and m = three_columns
  from C5_missing_column [OF r1 m, of store_AB clock10] C5_missing_column [OF r2 m, of store_AB clock10]
    C5_missing_column [OF r3 m, of store_AB clock10] r1 r2 r3 m
  show ?thesis by simp
qed

section \<open>C10: a row whose autores cell is not a literal\<close>

text \<open>
  Claim C10. The header has the four columns. The rows before the \<open>k\<close>-th data row are
  blank or well formed, and give the requests \<open>cs\<close>. In the \<open>k\<close>-th data row
  \<open>bad\<close>, the \<^verbatim>\<open>autores\<close> cell is no literal: \<^verbatim>\<open>literal_eval\<close> raises
  \<^verbatim>\<open>SyntaxError\<close>, \<^verbatim>\<open>ValueError\<close> or \<^verbatim>\<open>TypeError\<close> on it. Then the handler lets
  that exception escape (the framework answers 500, not the 400 of a missing column), and
  the store keeps the records of the rows before: the import is not undone.
\<close>

theorem C10_bad_literal_not_atomic:
  assumes "csv_reader file = (fieldnames # good @ bad # rest, err)"
    and "set required_columns \<subseteq> set fieldnames"
    and "map (\<lambda>row. row_to_CreateObra (row_dict fieldnames row)) (filter (\<lambda>row. row \<noteq> []) good)
           = map Inr cs"
    and "bad \<noteq> []"
    and "getitem (row_dict fieldnames bad) ''autores'' = Inr cell"
    and "literal_eval cell = Inl e"
    and "e = SyntaxError \<or> e = ValueError \<or> e = TypeError"
  shows "post_upload_obras s file clock = (Uncaught e, append_all s clock 0 cs)
    \<and> fst (post_upload_obras s file clock) \<noteq> HTTPException 400 csv_mal_formatado
    \<and> obras (snd (post_upload_obras s file clock)) = obras s @ appended s clock 0 cs
    \<and> length (appended s clock 0 cs) = length cs"
proof -
  from row_bad_literal [OF assms(2,5,6)]
  have b: "row_to_CreateObra (row_dict fieldnames bad) = Inl e" .
  have "upload_rows fieldnames clock 0 (good @ bad # rest) err s [] =
      upload_rows fieldnames clock (0 + length cs) (bad # rest) err (append_all s clock 0 cs)
        ([] @ appended s clock 0 cs)"
    by (rule upload_rows_good [OF assms(3)])
  also have "\<dots> = (Inl e, append_all s clock 0 cs)"
    by (rule upload_rows_bad [OF assms(4) b])
  finally have u: "upload_rows fieldnames clock 0 (good @ bad # rest) err s []
      = (Inl e, append_all s clock 0 cs)" .
  from assms(7) have ne: "e \<noteq> KeyError" by auto
  from u ne have p: "post_upload_obras s file clock = (Uncaught e, append_all s clock 0 cs)"
    by (simp add: post_upload_obras_def assms(1))
  then show ?thesis
    by (simp add: obras_append_all length_appended)
qed

text \<open>
  The theorem at three uploads whose first row is well formed and whose second row has
  the cell \<^verbatim>\<open>[Ana]\<close>, a name without quotes (\<^verbatim>\<open>ValueError\<close>), the cell \<^verbatim>\<open>[1,\<close>
  (\<^verbatim>\<open>SyntaxError\<close>), and the cell \<^verbatim>\<open>{[1]: 2}\<close> (\<^verbatim>\<open>TypeError\<close>).
\<close>

theorem C10_bad_literal_not_atomic_witness:
  "csv_reader upload_bad_second =
     ([''titulo'', ''editora'', ''foto'', ''autores'']
        # ([[''A'', ''E'', ''u'', ''[]'']] @ [''B'', ''F'', ''v'', ''[Ana]'']
             # [[''C'', ''G'', ''w'', ''[]'']]),
      None)
   \<and> set required_columns \<subseteq> set [''titulo'', ''editora'', ''foto'', ''autores'']
   \<and> literal_eval (Some ''[Ana]'') = Inl ValueError
   \<and> post_upload_obras Obras_init upload_bad_second clock10
       = (Uncaught ValueError,
          \<lparr>obras = [\<lparr>titulo = ''A'', editora = ''E'', foto = ''u'', autores = [],
                      id_obra = 1, created_at = 1, updated_at = 0\<rparr>],
           current_id = 1\<rparr>)
   \<and> literal_eval (Some cell_open_bracket) = Inl SyntaxError
   \<and> post_upload_obras Obras_init upload_open_bracket clock10
       = (Uncaught SyntaxError,
          \<lparr>obras = [\<lparr>titulo = ''A'', editora = ''E'', foto = ''u'', autores = [],
                      id_obra = 1, created_at = 1, updated_at = 0\<rparr>],
           current_id = 1\<rparr>)
   \<and> literal_eval (Some cell_list_key) = Inl TypeError
   \<and> post_upload_obras Obras_init upload_list_key clock10
       = (Uncaught TypeError,
          \<lparr>obras = [\<lparr>titulo = ''A'', editora = ''E'', foto = ''u'', autores = [],
                      id_obra = 1, created_at = 1, updated_at = 0\<rparr>],
           current_id = 1\<rparr>)"
proof -
  let ?fs = "[''titulo'', ''editora'', ''foto'', ''autores'']"
  let ?c = "\<lparr>titulo = ''A'', editora = ''E'', foto = ''u'', autores = []\<rparr>"
  have h: "set required_columns \<subseteq> set ?fs"
    by (simp add: required_columns_def)
  have r: "row_to_CreateObra (row_dict ?fs [''A'', ''E'', ''u'', ''[]'']) = Inr ?c"
    by (simp add: upload_simps literal_simps)
  have g: "map (\<lambda>row. row_to_CreateObra (row_dict ?fs row))
      (filter (\<lambda>row. row \<noteq> []) [[''A'', ''E'', ''u'', ''[]'']]) = map Inr [?c]"
    using r by simp
  have s: "append_all Obras_init clock10 0 [?c]
      = \<lparr>obras = [\<lparr>titulo = ''A'', editora = ''E'', foto = ''u'', autores = [],
                      id_obra = 1, created_at = 1, updated_at = 0\<rparr>],
           current_id = 1\<rparr>"
    by (simp add: Obras_append_def Obras_init_def mk_Obra_def clock10_def Let_def)
  have n1: "[''B'', ''F'', ''v'', ''[Ana]''] \<noteq> []" by simp
  have a1: "getitem (row_dict ?fs [''B'', ''F'', ''v'', ''[Ana]'']) ''autores'' = Inr (Some ''[Ana]'')"
    by (simp add: row_dict_def getitem_def)
  have l1: "literal_eval (Some ''[Ana]'') = Inl ValueError"
    by (simp add: literal_simps)
  have e1: "ValueError = SyntaxError \<or> ValueError = ValueError \<or> ValueError = TypeError"
    by simp
  have n2: "[''B'', ''F'', ''v'', cell_open_bracket] \<noteq> []" by simp
  have a2: "getitem (row_dict ?fs [''B'', ''F'', ''v'', cell_open_bracket]) ''autores''
      = Inr (Some cell_open_bracket)"
    by (simp add: row_dict_def getitem_def)
  have l2: "literal_eval (Some cell_open_bracket) = Inl SyntaxError"
    by (simp add: cell_open_bracket_def literal_simps)
  have e2: "SyntaxError = SyntaxError \<or> SyntaxError = ValueError \<or> SyntaxError = TypeError"
    by simp
  have n3: "[''B'', ''F'', ''v'', cell_list_key] \<noteq> []" by simp
  have a3: "getitem (row_dict ?fs [''B'', ''F'', ''v'', cell_list_key]) ''autores''
      = Inr (Some cell_list_key)"
    by (simp add: row_dict_def getitem_def)
  have l3: "literal_eval (Some cell_list_key) = Inl TypeError"
    by (simp add: cell_list_key_def literal_simps)
  have e3: "TypeError = SyntaxError \<or> TypeError = ValueError \<or> TypeError = TypeError"
    by simp
  have p1: "post_upload_obras Obras_init upload_bad_second clock10
      = (Uncaught ValueError, append_all Obras_init clock10 0 [?c])"
    using C10_bad_literal_not_atomic [OF reader_bad_second h g n1 a1 l1 e1, of Obras_init clock10]
    by (rule conjunct1)
  have p2: "post_upload_obras Obras_init upload_open_bracket clock10
      = (Uncaught SyntaxError, append_all Obras_init clock10 0 [?c])"
    using C10_bad_literal_not_atomic [OF reader_open_bracket h g n2 a2 l2 e2, of Obras_init clock10]
    by (rule conjunct1)
  have p3: "post_upload_obras Obras_init upload_list_key clock10
      = (Uncaught TypeError, append_all Obras_init clock10 0 [?c])"
    using C10_bad_literal_not_atomic [OF reader_list_key h g n3 a3 l3 e3, of Obras_init clock10]
    by (rule conjunct1)
  from reader_bad_second h l1 l2 l3 p1 p2 p3 s
  show ?thesis by simp
qed

section \<open>C9: the temporary file of an export\<close>

text \<open>
  Claim C9, at an input where it fails. The store holds two records, no file exists, and
  the request has no filter. The temporary file is created, and a write into it raises
  \<^verbatim>\<open>OSError\<close> after five characters. The exception escapes the handler (the framework
  answers 500), no response object was made, so no clean-up task exists, and the file
  that the request created is still there.
\<close>

theorem C9_write_failure_leaves_file:
  "get_file_obras str_micro (Write_fails 5) [] store_AB None
     = (Uncaught OSError, [(''/tmp/tmpx'', ''titul'')])"
  by (simp add: get_file_obras_def store_AB_eq fresh_name_def mk_Obra_def obra_A_def obra_B_def
      writer_simps reader_simps literal_simps)

section \<open>C6: the parser of the autores cell\<close>

text \<open>
  Claim C6 as stated fails. The cell \<^verbatim>\<open>[b'A']\<close> denotes a list whose element is a bytes
  value, not a text. It is not rejected: the validation of \<^verbatim>\<open>List[str]\<close> decodes the
  bytes, and the upload with that cell is answered with the record whose \<^verbatim>\<open>autores\<close>
  is \<^verbatim>\<open>['A']\<close>.
\<close>

theorem C6_bytes_element_counterexample:
  "literal_eval (Some cell_bytes) = Inr (PyList [PyBytes ''A''])
   \<and> \<not> is_text_sequence (PyList [PyBytes ''A''])
   \<and> autores_of_cell (Some cell_bytes) = Inr [''A'']
   \<and> post_upload_obras Obras_init upload_bytes clock10
       = (Response [\<lparr>titulo = ''A'', editora = ''E'', foto = ''u'', autores = [''A''],
                      id_obra = 1, created_at = 1, updated_at = 0\<rparr>],
          \<lparr>obras = [\<lparr>titulo = ''A'', editora = ''E'', foto = ''u'', autores = [''A''],
                      id_obra = 1, created_at = 1, updated_at = 0\<rparr>],
           current_id = 1\<rparr>)"
proof -
  have a: "autores_of_cell (Some cell_bytes) = Inr [''A'']"
    unfolding autores_of_cell_def literal_eval_cell_bytes
    by (simp add: all_valid_def py_ord_def)
  have r: "row_to_CreateObra (row_dict [''titulo'', ''editora'', ''foto'', ''autores'']
        [''A'', ''E'', ''u'', cell_bytes])
      = Inr \<lparr>titulo = ''A'', editora = ''E'', foto = ''u'', autores = [''A'']\<rparr>"
    unfolding row_to_CreateObra_def
    by (simp add: row_dict_def getitem_def literal_eval_cell_bytes CreateObra_validate_def
        all_valid_def py_ord_def del: literal_eval.simps)
  have p: "post_upload_obras Obras_init upload_bytes clock10
       = (Response [\<lparr>titulo = ''A'', editora = ''E'', foto = ''u'', autores = [''A''],
                      id_obra = 1, created_at = 1, updated_at = 0\<rparr>],
          \<lparr>obras = [\<lparr>titulo = ''A'', editora = ''E'', foto = ''u'', autores = [''A''],
                      id_obra = 1, created_at = 1, updated_at = 0\<rparr>],
           current_id = 1\<rparr>)"
    by (simp add: post_upload_obras_def reader_bytes r Obras_append_def Obras_init_def
        mk_Obra_def clock10_def Let_def)
  from literal_eval_cell_bytes a p show ?thesis by simp
qed

text \<open>
  Claim C6, amended. The parser accepts a bracketed sequence of texts, each in single or
  in double quotes and written without escapes, with a comma and any number of spaces
  between them, and gives the texts; \<^verbatim>\<open>[]\<close> gives the empty sequence. A set of texts
  is taken like a list: \<^verbatim>\<open>{'A'}\<close> gives the sequence of \<^verbatim>\<open>A\<close> alone. The parser
  rejects every cell whose literal denotes a value that is not a list, a tuple or a set
  (a number, a boolean, a text, a bytes value, a dictionary, \<open>None\<close>), and every list,
  tuple or set that has among its elements \<open>None\<close> or a list, a tuple, a set or a
  dictionary; such a row ends the import with \<^verbatim>\<open>ValidationError\<close>, which the handler
  does not catch.
\<close>

theorem C6_autores_parser:
  "(list_all plain es \<longrightarrow> autores_of_cell (Some (bracketed n es)) = Inr (map snd es))
   \<and> autores_of_cell (Some ''[]'') = Inr []
   \<and> autores_of_cell (Some cell_set) = Inr [''A'']
   \<and> (literal_eval cell = Inr v \<and> \<not> is_collection v \<longrightarrow>
         autores_of_cell cell = Inl ValidationError)
   \<and> (literal_eval cell = Inr v \<and> list_ex no_text (members v) \<longrightarrow>
         autores_of_cell cell = Inl ValidationError)
   \<and> (set required_columns \<subseteq> set fieldnames \<and> row \<noteq> []
        \<and> getitem (row_dict fieldnames row) ''autores'' = Inr cell
        \<and> autores_of_cell cell = Inl ValidationError \<longrightarrow>
         upload_rows fieldnames clock k (row # rest) err s results = (Inl ValidationError, s))"
proof (intro conjI impI)
  assume "list_all plain es"
  then show "autores_of_cell (Some (bracketed n es)) = Inr (map snd es)"
    by (rule autores_of_bracketed)
next
  have "list_all plain []" by simp
  from autores_of_bracketed [OF this, of 0] show "autores_of_cell (Some ''[]'') = Inr []"
    by (simp add: bracketed_def)
next
  show "autores_of_cell (Some cell_set) = Inr [''A'']"
    unfolding autores_of_cell_def literal_eval_cell_set
    by (simp add: set_valid_def all_valid_def)
next
  assume "literal_eval cell = Inr v \<and> \<not> is_collection v"
  then show "autores_of_cell cell = Inl ValidationError"
    by (simp add: autores_of_cell_def list_validator_not_collection)
next
  assume a: "literal_eval cell = Inr v \<and> list_ex no_text (members v)"
  then obtain x where "x \<in> set (members v)" and "no_text x"
    by (auto simp: list_ex_iff)
  then have "list_validator v = Inl ValidationError"
    by (rule list_validator_no_text)
  with a show "autores_of_cell cell = Inl ValidationError"
    by (simp add: autores_of_cell_def)
next
  assume a: "set required_columns \<subseteq> set fieldnames \<and> row \<noteq> []
        \<and> getitem (row_dict fieldnames row) ''autores'' = Inr cell
        \<and> autores_of_cell cell = Inl ValidationError"
  then have c: "set required_columns \<subseteq> set fieldnames"
    and g: "getitem (row_dict fieldnames row) ''autores'' = Inr cell"
    and v: "autores_of_cell cell = Inl ValidationError"
    by simp_all
  have "row_to_CreateObra (row_dict fieldnames row) = Inl ValidationError"
    by (rule row_invalid_autores [OF c g v])
  with a show "upload_rows fieldnames clock k (row # rest) err s results = (Inl ValidationError, s)"
    by simp
qed

theorem C6_autores_parser_witness:
  "list_all plain [(squote, ''Ana''), (quotechar, ''Bruno'')]
   \<and> autores_of_cell (Some cell_two_quotes) = Inr [''Ana'', ''Bruno'']
   \<and> literal_eval (Some ''7'') = Inr (PyInt 7) \<and> \<not> is_collection (PyInt 7)
   \<and> autores_of_cell (Some ''7'') = Inl ValidationError
   \<and> literal_eval (Some ''{}'') = Inr (PyDict []) \<and> \<not> is_collection (PyDict [])
   \<and> autores_of_cell (Some ''{}'') = Inl ValidationError
   \<and> literal_eval (Some ''[None]'') = Inr (PyList [PyNone])
   \<and> list_ex no_text (members (PyList [PyNone]))
   \<and> autores_of_cell (Some ''[None]'') = Inl ValidationError
   \<and> literal_eval (Some ''{(), None}'') = Inr (PySet [PyTuple [], PyNone])
   \<and> list_ex no_text (members (PySet [PyTuple [], PyNone]))
   \<and> autores_of_cell (Some ''{(), None}'') = Inl ValidationError
   \<and> set required_columns \<subseteq> set [''titulo'', ''editora'', ''foto'', ''autores'']
   \<and> getitem (row_dict [''titulo'', ''editora'', ''foto'', ''autores''] [''A'', ''E'', ''u'', ''7''])
         ''autores'' = Inr (Some ''7'')
   \<and> upload_rows [''titulo'', ''editora'', ''foto'', ''autores''] clock10 0
         [[''A'', ''E'', ''u'', ''7'']] None Obras_init [] = (Inl ValidationError, Obras_init)
   \<and> post_upload_obras Obras_init upload_number clock10 = (Uncaught ValidationError, Obras_init)"
proof -
  let ?fs = "[''titulo'', ''editora'', ''foto'', ''autores'']"
  have pl: "list_all plain [(squote, ''Ana''), (quotechar, ''Bruno'')]"
    by (simp add: plain_def squote_def quotechar_def backslash_def LF_def CR_def)
  have l7: "literal_eval (Some ''7'') = Inr (PyInt 7)"
    by (simp add: literal_simps)
  have ld: "literal_eval (Some ''{}'') = Inr (PyDict [])"
    by (simp add: literal_simps)
  have ln: "literal_eval (Some ''[None]'') = Inr (PyList [PyNone])"
    by (simp add: literal_simps)
  have ls: "literal_eval (Some ''{(), None}'') = Inr (PySet [PyTuple [], PyNone])"
    by (simp add: literal_simps)
  have rc: "set required_columns \<subseteq> set ?fs"
    by (simp add: required_columns_def)
  have gi: "getitem (row_dict ?fs [''A'', ''E'', ''u'', ''7'']) ''autores'' = Inr (Some ''7'')"
    by (simp add: row_dict_def getitem_def)
  have a2: "autores_of_cell (Some cell_two_quotes) = Inr [''Ana'', ''Bruno'']"
    using C6_autores_parser [where es = "[(squote, ''Ana''), (quotechar, ''Bruno'')]" and n = 1] pl
    by (simp add: cell_two_quotes_def)
  have a7: "autores_of_cell (Some ''7'') = Inl ValidationError"
    using C6_autores_parser [where cell = "Some ''7''" and v = "PyInt 7"] l7 by simp
  have ad: "autores_of_cell (Some ''{}'') = Inl ValidationError"
    using C6_autores_parser [where cell = "Some ''{}''" and v = "PyDict []"] ld by simp
  have an: "autores_of_cell (Some ''[None]'') = Inl ValidationError"
    using C6_autores_parser [where cell = "Some ''[None]''" and v = "PyList [PyNone]"] ln by simp
  have as: "autores_of_cell (Some ''{(), None}'') = Inl ValidationError"
    using C6_autores_parser [where cell = "Some ''{(), None}''" and v = "PySet [PyTuple [], PyNone]"]
      ls by simp
  have up: "upload_rows ?fs clock10 0 [[''A'', ''E'', ''u'', ''7'']] None Obras_init []
      = (Inl ValidationError, Obras_init)"
    using C6_autores_parser [where cell = "Some ''7''" and fieldnames = ?fs
        and row = "[''A'', ''E'', ''u'', ''7'']" and clock = clock10 and k = 0 and rest = "[]"
        and err = None and s = Obras_init and results = "[]"] rc gi a7
    by simp
  have po: "post_upload_obras Obras_init upload_number clock10 = (Uncaught ValidationError, Obras_init)"
    by (simp add: post_upload_obras_def reader_number up del: upload_rows.simps)
  from pl a2 l7 a7 ld ad ln an ls as rc gi up po show ?thesis by simp
qed

section \<open>C7: exporting and importing again\<close>




end
